theory Spec2Isabelle
  imports Complex_Main "HOL-Library.Word"
begin

unbundle bit_operations_syntax

section \<open>Range trimming of doubles (M68k_LINEF.c)\<close>

text \<open>
  \<^verbatim>\<open>TrimDoubleRange\<close> works on the bit pattern of its argument through a union of a
  \<^verbatim>\<open>uint64_t\<close>, two \<^verbatim>\<open>uint32_t\<close> and a \<^verbatim>\<open>double\<close>. A double is therefore modelled by
  its 64-bit pattern. The source reads the exponent from \<^verbatim>\<open>i32[0]\<close>: it is written for the
  big-endian host of the emitters (instruction words go through \<^verbatim>\<open>INSN_TO_LE\<close>), where
  element 0 of the two-word view is the upper half of the 64-bit pattern.
\<close>

type_synonym u8 = "8 word"
type_synonym u16 = "16 word"
type_synonym u32 = "32 word"
type_synonym u64 = "64 word"

definition i32_0 :: "u64 \<Rightarrow> u32" where
  "i32_0 n = ucast (drop_bit 32 n)"

definition set_i32_0 :: "u64 \<Rightarrow> u32 \<Rightarrow> u64" where
  "set_i32_0 n v = (n AND 0x00000000ffffffff) OR push_bit 32 (ucast v)"

text \<open>\<^verbatim>\<open>__builtin_clzll\<close>: the number of zero bits above the highest set bit.\<close>

definition clzll :: "u64 \<Rightarrow> nat" where
  "clzll x = length (takeWhile Not (rev (map (bit x) [0..<64])))"

definition TrimDoubleRange :: "u64 \<Rightarrow> u64" where
  "TrimDoubleRange n =
     (let exp0 = drop_bit 20 (i32_0 n) AND (0x7ff :: u32);
          man0 = n AND (0x000fffffffffffff :: u64);
          (exp1, man1) =
            (if man0 \<noteq> 0 \<and> 0x3ff < exp0 \<and> exp0 < 0x3ff + 52 then
               let man = push_bit (unat (exp0 - 0x3ff)) man0 AND 0x001fffffffffffff;
                   exp = (0x3ff :: u32)
               in if man \<noteq> 0 then
                    let d = int (clzll man) - 11
                    in if d \<noteq> 0
                       then (exp - word_of_int d,
                             push_bit (nat d) man AND 0x000fffffffffffff)
                       else (exp, man)
                  else (0, man)
             else if man0 = 0 \<and> 0x3ff < exp0 then (0, man0)
             else (exp0, man0));
          out_i = man1 AND NOT (0x0010000000000000 :: u64)
      in set_i32_0 out_i (i32_0 out_i OR push_bit 20 exp1))"

text \<open>The fields of an IEEE-754 double and the real number a finite pattern denotes.\<close>

definition double_sign :: "u64 \<Rightarrow> bool" where
  "double_sign n = bit n 63"

definition double_exp :: "u64 \<Rightarrow> nat" where
  "double_exp n = unat (drop_bit 52 n AND (0x7ff :: u64))"

definition double_man :: "u64 \<Rightarrow> nat" where
  "double_man n = unat (n AND (0x000fffffffffffff :: u64))"

definition double_finite :: "u64 \<Rightarrow> bool" where
  "double_finite n = (double_exp n \<noteq> 0x7ff)"

definition double_value :: "u64 \<Rightarrow> real" where
  "double_value n =
     (if double_sign n then -1 else 1) *
     (if double_exp n = 0 then real (double_man n) * 2 powi (- 1074)
      else real (2 ^ 52 + double_man n) * 2 powi (int (double_exp n) - 1075))"



section \<open>The emitted stream (M68k_LINE5.c, M68k_LINEF.c)\<close>

text \<open>
  An emitter receives the cursor \<^verbatim>\<open>ptr\<close> into the host-code fragment and the cursor
  \<^verbatim>\<open>m68k_ptr\<close> into the guest code, appends 32-bit words through \<^verbatim>\<open>*ptr++ = ...\<close>, patches
  some of the words it has written through saved pointers, and calls the register
  allocator. The model keeps the words written since the start of the emission as a list
  (so that a saved pointer is an index into it), the number of guest words consumed, and
  a log of the allocator calls, each with the position of the cursor at the call.

  The encoders of \<^verbatim>\<open>ARM.h\<close> (\<^verbatim>\<open>add_immed\<close>, \<^verbatim>\<open>b_cc\<close>, ...) are kept symbolic: one constructor
  per encoder, with the arguments of the call.
\<close>

type_synonym reg = u8

datatype (plugins only: code) arm_insn =
    mov_reg_shift reg reg nat
  | bic_immed reg reg int
  | tst_immed reg int
  | orr_cc_immed u8 reg reg int
  | msr reg int
  | add_immed reg reg int
  | add_cc_immed u8 reg reg int
  | b_cc u8 int
  | sub_immed reg reg int
  | cmn_immed reg int
  | lsr_immed reg reg nat
  | bfi reg reg nat nat
  | ldrsh_offset reg reg int
  | add_reg reg reg reg nat
  | fabsd reg reg
  | ldr_offset reg reg int
  | fldd reg reg int
  | movw_immed_u16 reg int
  | movt_immed_u16 reg int
  | fmuld reg reg reg
  | fsubd reg reg reg
  | fcpyd reg reg
  | fnegd reg reg
  | fnegd_cc u8 reg reg
  | push u32
  | pop u32
  | blx_cc_reg u8 reg
  | cmp_reg reg reg
  | udf u16

text \<open>The addresses the line-F emitter stores in the stream as data words.\<close>

datatype host_symbol = sym_constants | sym_PolySine | sym_PolyCosine | sym_TrimDoubleRange

datatype item =
    Insn arm_insn
  | Raw u32          \<comment> \<open>an instruction word given as a number, \<^verbatim>\<open>INSN_TO_LE(0x...)\<close>\<close>
  | Word32 u32       \<comment> \<open>a data word\<close>
  | AddrOf host_symbol   \<comment> \<open>\<^verbatim>\<open>BE32((uint32_t)&symbol)\<close>\<close>
  | SlotAddr nat     \<comment> \<open>\<^verbatim>\<open>(uint32_t)p\<close> for a pointer \<open>p\<close> into the stream, as its index\<close>

datatype ra_call =
    RA_MapM68kRegister u8
  | RA_SetDirtyM68kRegister u8
  | RA_AllocARMRegister
  | RA_FreeARMRegister reg
  | RA_MapFPURegister u8
  | RA_MapFPURegisterForWrite u8
  | RA_AllocFPURegister
  | RA_FreeFPURegister reg

record emitter =
  stream :: "item list"
  m68k_ptr :: nat
  ra_log :: "(nat \<times> ra_call) list"

text \<open>
  What the emitters use and \<^verbatim>\<open>src/\<close> does not hold is a parameter: the host registers that
  carry guest PC and SR (\<^verbatim>\<open>REG_PC\<close>, \<^verbatim>\<open>REG_SR\<close>), the register the allocator answers with at
  its \<open>n\<close>-th call, and the words that \<^verbatim>\<open>EMIT_AdvancePC\<close> and \<^verbatim>\<open>EMIT_FlushPC\<close> append. Code
  that the allocator may emit by itself (spills and reloads) is outside the emitters and
  is not part of the modelled stream.
\<close>

record emit_env =
  REG_PC :: reg
  REG_SR :: reg
  RA_answer :: "nat \<Rightarrow> ra_call \<Rightarrow> reg"
  AdvancePC_words :: "int \<Rightarrow> item list"
  FlushPC_words :: "item list"

definition ptr :: "emitter \<Rightarrow> nat" where
  "ptr e = length (stream e)"

definition emit :: "arm_insn \<Rightarrow> emitter \<Rightarrow> emitter" where
  "emit i e = e\<lparr>stream := stream e @ [Insn i]\<rparr>"

definition emit_item :: "item \<Rightarrow> emitter \<Rightarrow> emitter" where
  "emit_item x e = e\<lparr>stream := stream e @ [x]\<rparr>"

definition emit_items :: "item list \<Rightarrow> emitter \<Rightarrow> emitter" where
  "emit_items xs e = e\<lparr>stream := stream e @ xs\<rparr>"

definition RA :: "emit_env \<Rightarrow> ra_call \<Rightarrow> emitter \<Rightarrow> reg \<times> emitter" where
  "RA env c e =
     (RA_answer env (length (ra_log e)) c, e\<lparr>ra_log := ra_log e @ [(ptr e, c)]\<rparr>)"

definition RA_void :: "ra_call \<Rightarrow> emitter \<Rightarrow> emitter" where
  "RA_void c e = e\<lparr>ra_log := ra_log e @ [(ptr e, c)]\<rparr>"

definition EMIT_AdvancePC :: "emit_env \<Rightarrow> int \<Rightarrow> emitter \<Rightarrow> emitter" where
  "EMIT_AdvancePC env n e = emit_items (AdvancePC_words env n) e"

definition EMIT_FlushPC :: "emit_env \<Rightarrow> emitter \<Rightarrow> emitter" where
  "EMIT_FlushPC env e = emit_items (FlushPC_words env) e"

text \<open>
  \<^verbatim>\<open>*p = INSN_TO_LE(INSN_TO_LE(*p) + n)\<close> and \<^verbatim>\<open>*p |= INSN_TO_LE(n)\<close> on a branch written
  with offset 0: both set the offset field of the branch at index \<open>p\<close>; the first adds to
  it. Any other word is left as it is (the emitters patch branches only).
\<close>

fun add_to_offset :: "int \<Rightarrow> item \<Rightarrow> item" where
  "add_to_offset n (Insn (b_cc c off)) = Insn (b_cc c (off + n))"
| "add_to_offset n x = x"

definition patch :: "nat \<Rightarrow> int \<Rightarrow> emitter \<Rightarrow> emitter" where
  "patch p n e =
     (if p < length (stream e)
      then e\<lparr>stream := (stream e)[p := add_to_offset n (stream e ! p)]\<rparr>
      else e)"

text \<open>
  Modelled from the spec: \<^verbatim>\<open>ARM.h\<close>, which defines the names \<^verbatim>\<open>ARM_CC_*\<close>, is not under
  \<^verbatim>\<open>src/\<close>. The specification maps the 16 guest condition codes to native condition codes
  by the table of the source; the values are the condition fields of the ARM
  architecture.
\<close>

definition ARM_CC_EQ :: u8 where "ARM_CC_EQ = 0x00"
definition ARM_CC_NE :: u8 where "ARM_CC_NE = 0x01"
definition ARM_CC_CS :: u8 where "ARM_CC_CS = 0x02"
definition ARM_CC_CC :: u8 where "ARM_CC_CC = 0x03"
definition ARM_CC_MI :: u8 where "ARM_CC_MI = 0x04"
definition ARM_CC_PL :: u8 where "ARM_CC_PL = 0x05"
definition ARM_CC_VS :: u8 where "ARM_CC_VS = 0x06"
definition ARM_CC_VC :: u8 where "ARM_CC_VC = 0x07"
definition ARM_CC_HI :: u8 where "ARM_CC_HI = 0x08"
definition ARM_CC_LS :: u8 where "ARM_CC_LS = 0x09"
definition ARM_CC_GE :: u8 where "ARM_CC_GE = 0x0a"
definition ARM_CC_LT :: u8 where "ARM_CC_LT = 0x0b"
definition ARM_CC_GT :: u8 where "ARM_CC_GT = 0x0c"
definition ARM_CC_LE :: u8 where "ARM_CC_LE = 0x0d"
definition ARM_CC_AL :: u8 where "ARM_CC_AL = 0x0e"

text \<open>
  Modelled from the spec: \<^verbatim>\<open>M68k.h\<close>, which defines \<^verbatim>\<open>M_CC_T\<close> and \<^verbatim>\<open>M_CC_F\<close>, is not under
  \<^verbatim>\<open>src/\<close>. They are the two literal conditions, the first two of the 16 guest condition
  codes in the order of the table below.
\<close>

definition M_CC_T :: u8 where "M_CC_T = 0x00"
definition M_CC_F :: u8 where "M_CC_F = 0x01"

subsection \<open>The line-5 emitter\<close>

definition M68K_ccTo_ARM :: "u8 list" where
  "M68K_ccTo_ARM =
     [ARM_CC_AL, 0x0f, ARM_CC_HI, ARM_CC_LS, ARM_CC_CC, ARM_CC_CS, ARM_CC_NE, ARM_CC_EQ,
      ARM_CC_VC, ARM_CC_VS, ARM_CC_PL, ARM_CC_MI, ARM_CC_GE, ARM_CC_LT, ARM_CC_GT, ARM_CC_LE]"

definition EMIT_LoadARMCC :: "emit_env \<Rightarrow> reg \<Rightarrow> emitter \<Rightarrow> emitter" where
  "EMIT_LoadARMCC env m68k_cc e0 =
     (let (tmp, e) = RA env RA_AllocARMRegister e0;
          e = emit (mov_reg_shift tmp m68k_cc 28) e;
          e = emit (bic_immed tmp tmp 0x203) e;
          e = emit (tst_immed tmp 2) e;
          e = emit (orr_cc_immed ARM_CC_NE tmp tmp 0x201) e;
          e = emit (tst_immed tmp 1) e;
          e = emit (orr_cc_immed ARM_CC_NE tmp tmp 0x202) e;
          e = emit (msr tmp 8) e
      in RA_void (RA_FreeARMRegister tmp) e)"

text \<open>
  The DBcc branch of \<^verbatim>\<open>EMIT_line5\<close>, from the allocation of the scratch register on
  (the part shared by DBF and the conditions that are tested).
\<close>

definition DBcc_counter :: "emit_env \<Rightarrow> u16 \<Rightarrow> reg \<Rightarrow> nat option \<Rightarrow> emitter \<Rightarrow> emitter" where
  "DBcc_counter env opcode counter_reg branch_1 e0 =
     (let (reg, e) = RA env RA_AllocARMRegister e0;
          e = emit (mov_reg_shift reg counter_reg 16) e;
          e = emit (sub_immed reg reg 0x801) e;
          e = emit (cmn_immed reg 0x801) e;
          e = emit (lsr_immed reg reg 16) e;
          e = emit (bfi counter_reg reg 0 16) e;
          e = RA_void (RA_SetDirtyM68kRegister (ucast (opcode AND 7))) e;
          e = emit (ldrsh_offset (REG_PC env) reg 0) e;
          e = emit (add_cc_immed ARM_CC_EQ (REG_PC env) (REG_PC env) 2) e;
          branch_2 = ptr e;
          e = emit (b_cc ARM_CC_EQ 0) e;
          e = emit (add_reg (REG_PC env) (REG_PC env) reg 0) e;
          e = RA_void (RA_FreeARMRegister reg) e;
          e = (case branch_1 of
                 Some b1 \<Rightarrow> emit_item (SlotAddr b1) (patch b1 (int branch_2 - int b1) e)
               | None \<Rightarrow> e);
          e = emit_item (SlotAddr branch_2) e;
          e = emit_item (Word32 (if branch_1 = None then 1 else 2)) e;
          e = emit_item (Word32 0xfffffffe) e
      in RA_void (RA_FreeARMRegister reg) e)"

definition EMIT_line5 :: "emit_env \<Rightarrow> (nat \<Rightarrow> u16) \<Rightarrow> emitter \<Rightarrow> emitter" where
  "EMIT_line5 env m68k e0 =
     (let opcode = m68k (m68k_ptr e0);
          e = e0\<lparr>m68k_ptr := m68k_ptr e0 + 1\<rparr>
      in if opcode AND 0xf0c0 = 0x50c0 then
           if opcode AND 0x38 = 0x08 then
             let (counter_reg, e) = RA env (RA_MapM68kRegister (ucast (opcode AND 7))) e;
                 m68k_condition = (ucast (drop_bit 8 opcode AND 0x0f) :: u8);
                 arm_condition = M68K_ccTo_ARM ! unat m68k_condition;
                 e = e\<lparr>m68k_ptr := m68k_ptr e + 1\<rparr>
             in if m68k_condition = M_CC_T
                then emit (add_immed (REG_PC env) (REG_PC env) 4) e
                else
                  let (branch_1, e) =
                        (if m68k_condition \<noteq> M_CC_F then
                           let e = EMIT_LoadARMCC env (REG_SR env) e;
                               e = emit (add_cc_immed (arm_condition XOR 1)
                                           (REG_PC env) (REG_PC env) 2) e;
                               e = emit (add_cc_immed arm_condition
                                           (REG_PC env) (REG_PC env) 4) e;
                               b1 = ptr e;
                               e = emit (b_cc arm_condition 0) e
                           in (Some b1, e)
                         else (None, e))
                  in DBcc_counter env opcode counter_reg branch_1 e
           else if opcode AND 0x38 = 0x38 then e
           else e
         else if opcode AND 0xf100 = 0x5100 then e
         else if opcode AND 0xf100 = 0x5000 then e
         else e)"

definition emitter0 :: emitter where
  "emitter0 = \<lparr>stream = [], m68k_ptr = 0, ra_log = []\<rparr>"

subsection \<open>Meaning of the emitted line-5 instructions\<close>

text \<open>
  Modelled from the spec: \<^verbatim>\<open>ARM.h\<close>, which holds the encoders, is not under \<^verbatim>\<open>src/\<close>. Each
  encoder is given the meaning of the ARM instruction it is named after, with the operand
  order and the immediates that the comments at the call sites state (\<^verbatim>\<open>mov_reg_shift\<close>
  shifts left; \<^verbatim>\<open>0x801\<close> is \<^verbatim>\<open>0x10000\<close>, an 8-bit value rotated right by twice the upper four
  bits; \<^verbatim>\<open>ldrsh_offset(base, dest, offset)\<close> loads a sign-extended halfword; \<^verbatim>\<open>bfi\<close> inserts
  the low bits of its source). The host reads guest memory big-endian, as the guest does.
  Instructions whose meaning is not given here make the run fail (\<open>None\<close>).
\<close>

record arm_state =
  R :: "reg \<Rightarrow> u32"
  flagN :: bool
  flagZ :: bool
  flagC :: bool
  flagV :: bool
  mem :: "u32 \<Rightarrow> u8"

definition arm_imm12 :: "int \<Rightarrow> u32" where
  "arm_imm12 v =
     (let imm8 = (word_of_int (v mod 256) :: u32);
          rot = nat ((v div 256) mod 16)
      in drop_bit (2 * rot) imm8 OR push_bit (32 - 2 * rot) imm8)"

definition cond_holds :: "u8 \<Rightarrow> arm_state \<Rightarrow> bool option" where
  "cond_holds cc s =
     (if cc = ARM_CC_EQ then Some (flagZ s)
      else if cc = ARM_CC_NE then Some (\<not> flagZ s)
      else if cc = ARM_CC_CS then Some (flagC s)
      else if cc = ARM_CC_CC then Some (\<not> flagC s)
      else if cc = ARM_CC_MI then Some (flagN s)
      else if cc = ARM_CC_PL then Some (\<not> flagN s)
      else if cc = ARM_CC_VS then Some (flagV s)
      else if cc = ARM_CC_VC then Some (\<not> flagV s)
      else if cc = ARM_CC_HI then Some (flagC s \<and> \<not> flagZ s)
      else if cc = ARM_CC_LS then Some (\<not> flagC s \<or> flagZ s)
      else if cc = ARM_CC_GE then Some (flagN s = flagV s)
      else if cc = ARM_CC_LT then Some (flagN s \<noteq> flagV s)
      else if cc = ARM_CC_GT then Some (\<not> flagZ s \<and> flagN s = flagV s)
      else if cc = ARM_CC_LE then Some (flagZ s \<or> flagN s \<noteq> flagV s)
      else if cc = ARM_CC_AL then Some True
      else None)"

definition set_reg :: "reg \<Rightarrow> u32 \<Rightarrow> arm_state \<Rightarrow> arm_state" where
  "set_reg r v s = s\<lparr>R := (R s)(r := v)\<rparr>"

definition load16 :: "arm_state \<Rightarrow> u32 \<Rightarrow> u16" where
  "load16 s a = push_bit 8 (ucast (mem s a)) OR ucast (mem s (a + 1))"

definition exec_insn :: "arm_insn \<Rightarrow> arm_state \<Rightarrow> arm_state option" where
  "exec_insn i s =
     (case i of
        mov_reg_shift rd rm n \<Rightarrow> Some (set_reg rd (push_bit n (R s rm)) s)
      | lsr_immed rd rm n \<Rightarrow> Some (set_reg rd (drop_bit n (R s rm)) s)
      | bic_immed rd rn imm \<Rightarrow> Some (set_reg rd (R s rn AND NOT (arm_imm12 imm)) s)
      | add_immed rd rn imm \<Rightarrow> Some (set_reg rd (R s rn + arm_imm12 imm) s)
      | sub_immed rd rn imm \<Rightarrow> Some (set_reg rd (R s rn - arm_imm12 imm) s)
      | add_reg rd rn rm sh \<Rightarrow> Some (set_reg rd (R s rn + push_bit sh (R s rm)) s)
      | add_cc_immed cc rd rn imm \<Rightarrow>
          (case cond_holds cc s of
             None \<Rightarrow> None
           | Some b \<Rightarrow> Some (if b then set_reg rd (R s rn + arm_imm12 imm) s else s))
      | orr_cc_immed cc rd rn imm \<Rightarrow>
          (case cond_holds cc s of
             None \<Rightarrow> None
           | Some b \<Rightarrow> Some (if b then set_reg rd (R s rn OR arm_imm12 imm) s else s))
      | tst_immed rn imm \<Rightarrow>
          (let r = R s rn AND arm_imm12 imm
           in Some (s\<lparr>flagN := bit r 31, flagZ := (r = 0),
                      flagC := (if (imm div 256) mod 16 = 0 then flagC s
                                else bit (arm_imm12 imm) 31)\<rparr>))
      | cmn_immed rn imm \<Rightarrow>
          (let a = R s rn; b = arm_imm12 imm; r = a + b
           in Some (s\<lparr>flagN := bit r 31, flagZ := (r = 0),
                      flagC := (2 ^ 32 \<le> uint a + uint b),
                      flagV := (sint a + sint b \<noteq> sint r)\<rparr>))
      | msr r fmask \<Rightarrow>
          (if fmask = 8
           then Some (s\<lparr>flagN := bit (R s r) 31, flagZ := bit (R s r) 30,
                        flagC := bit (R s r) 29, flagV := bit (R s r) 28\<rparr>)
           else None)
      | bfi rd rn lsb width \<Rightarrow>
          Some (set_reg rd ((R s rd AND NOT (push_bit lsb (mask width)))
                            OR push_bit lsb (R s rn AND mask width)) s)
      | ldrsh_offset rn rt off \<Rightarrow>
          Some (set_reg rt (scast (load16 s (R s rn + word_of_int off))) s)
      | _ \<Rightarrow> None)"

text \<open>
  Running a stream from index \<open>i\<close>: a branch \<^verbatim>\<open>b_cc(cc, off)\<close> at index \<open>i\<close> that is taken
  continues at \<open>i + 2 + off\<close> (the ARM program counter reads two words ahead); the run ends
  at the first word that is not an instruction (the records that follow the code) or at
  the end of the stream. The emitters only branch forwards; a branch backwards is not
  followed.
\<close>

datatype outcome = Next nat arm_state | Stop arm_state | Fault

definition step :: "item list \<Rightarrow> nat \<Rightarrow> arm_state \<Rightarrow> outcome" where
  "step prog i s =
     (case prog ! i of
        Insn ins \<Rightarrow>
          (case ins of
             b_cc cc off \<Rightarrow>
               (case cond_holds cc s of
                  None \<Rightarrow> Fault
                | Some b \<Rightarrow> if b then (if 0 \<le> off then Next (i + 2 + nat off) s else Fault)
                           else Next (i + 1) s)
           | _ \<Rightarrow> (case exec_insn ins s of None \<Rightarrow> Fault | Some s' \<Rightarrow> Next (i + 1) s'))
      | Raw w \<Rightarrow> Fault
      | _ \<Rightarrow> Stop s)"

function run :: "item list \<Rightarrow> nat \<Rightarrow> arm_state \<Rightarrow> arm_state option" where
  "run prog i s =
     (if i < length prog then
        (case step prog i s of
           Next j s' \<Rightarrow> if i < j then run prog j s' else None
         | Stop s' \<Rightarrow> Some s'
         | Fault \<Rightarrow> None)
      else Some s)"
  by pat_completeness auto
termination
  by (relation "measure (\<lambda>(prog, i, s). length prog - i)") auto

subsection \<open>A concrete emission and start state\<close>

text \<open>
  Guest PC lives in host register 10, SR in 11, guest data register \<open>n\<close> in \<open>4 + n\<close>, and
  the allocator hands out register 0 as scratch. The guest instruction at address
  \<open>0x1000\<close> is \<^verbatim>\<open>DBcc D0\<close> with displacement \<open>-4\<close>.
\<close>

definition env_example :: emit_env where
  "env_example =
     \<lparr>REG_PC = 10, REG_SR = 11,
      RA_answer = (\<lambda>n c. case c of RA_MapM68kRegister g \<Rightarrow> 4 + g | _ \<Rightarrow> 0),
      AdvancePC_words = (\<lambda>n. [Insn (add_immed 10 10 n)]),
      FlushPC_words = []\<rparr>"

definition guest_code :: "u16 \<Rightarrow> nat \<Rightarrow> u16" where
  "guest_code opcode n = (if n = 0 then opcode else 0xfffc)"

definition state_example :: "u16 \<Rightarrow> u32 \<Rightarrow> u32 \<Rightarrow> arm_state" where
  "state_example opcode d0 sr =
     \<lparr>R = (\<lambda>_. 0)(4 := d0, 10 := 0x1000, 11 := sr),
      flagN = False, flagZ = False, flagC = False, flagV = False,
      mem = (\<lambda>_. 0)(0x1000 := ucast (drop_bit 8 opcode), 0x1001 := ucast opcode,
                     0x1002 := 0xff, 0x1003 := 0xfc)\<rparr>"

subsection \<open>The line-F emitter\<close>

text \<open>Indices into the table of constants (the \<^verbatim>\<open>enum\<close> at the head of the file).\<close>

definition C_1_PI :: int where "C_1_PI = 3"
definition C_0_5 :: int where "C_0_5 = 8"
definition C_1_5 :: int where "C_1_5 = 9"
definition C_10P0 :: int where "C_10P0 = 0x32"

definition ext_count :: nat where "ext_count = 1"

text \<open>\<^verbatim>\<open>(intptr_t)a - (intptr_t)r\<close> for two pointers into the stream: a distance in bytes.\<close>

definition byte_diff :: "nat \<Rightarrow> nat \<Rightarrow> int" where
  "byte_diff a r = 4 * (int a - int r)"

definition save_mask :: "reg \<Rightarrow> u32" where
  "save_mask base_reg = push_bit (unat base_reg) 1 OR 0x0f OR push_bit 12 1"

definition EMIT_FABS :: "emit_env \<Rightarrow> u16 \<Rightarrow> emitter \<Rightarrow> emitter" where
  "EMIT_FABS env opcode2 e0 =
     (let fp_src = (ucast (drop_bit 10 opcode2 AND 7) :: u8);
          fp_dst = (ucast (drop_bit 7 opcode2 AND 7) :: u8);
          e = emit (fabsd fp_dst fp_src) e0;
          e = EMIT_AdvancePC env (2 * (int ext_count + 1)) e
      in e\<lparr>m68k_ptr := m68k_ptr e + ext_count\<rparr>)"

definition EMIT_FMOVECR :: "emit_env \<Rightarrow> u16 \<Rightarrow> emitter \<Rightarrow> emitter" where
  "EMIT_FMOVECR env opcode2 e0 =
     (let fp_dst = (ucast (drop_bit 7 opcode2 AND 7) :: u8);
          (base_reg, e) = RA env RA_AllocARMRegister e0;
          offset = (ucast (opcode2 AND 0x7f) :: u8);
          (fp_dst, e) = RA env (RA_MapFPURegisterForWrite fp_dst) e;
          e = emit (ldr_offset 15 base_reg 4) e;
          e = emit (fldd fp_dst base_reg (uint offset * 2)) e;
          e = emit (b_cc ARM_CC_AL 0) e;
          e = emit_item (AddrOf sym_constants) e;
          e = RA_void (RA_FreeARMRegister base_reg) e;
          e = EMIT_AdvancePC env (2 * (int ext_count + 1)) e
      in e\<lparr>m68k_ptr := m68k_ptr e + ext_count\<rparr>)"

text \<open>
  The part that FSIN and FCOS share word for word: the literals, \<open>|x| / \<pi>\<close> and the call
  of the range trimming. It returns the stream positions of the two polynomial addresses.
  FSIN alone copies the sign of the source to an ARM register (\<open>sign\<close> is \<open>None\<close> for FCOS).
\<close>

definition trig_prologue ::
  "reg \<Rightarrow> reg \<Rightarrow> reg option \<Rightarrow> reg \<Rightarrow> reg \<Rightarrow> reg \<Rightarrow> reg \<Rightarrow> emitter \<Rightarrow> (nat \<times> nat) \<times> emitter" where
  "trig_prologue base_reg top_half sign cmp_num fp_src fp_tmp1 fp_tmp2 e0 =
     (let e = emit (ldr_offset 15 base_reg 0) e0;
          e = emit (b_cc ARM_CC_AL 3) e;
          e = emit_item (AddrOf sym_constants) e;
          adr_sin = ptr e;
          e = emit_item (AddrOf sym_PolySine) e;
          adr_cos = ptr e;
          e = emit_item (AddrOf sym_PolyCosine) e;
          adr_trim = ptr e;
          e = emit_item (AddrOf sym_TrimDoubleRange) e;
          e = emit (movw_immed_u16 cmp_num 0) e;
          e = (case sign of
                 Some sg \<Rightarrow> emit_item (Raw (0xee300b10 OR push_bit 12 (ucast sg)
                                              OR push_bit 16 (ucast fp_src))) e
               | None \<Rightarrow> e);
          e = emit (fabsd fp_tmp1 fp_src) e;
          e = emit (fldd fp_tmp2 base_reg (C_1_PI * 2)) e;
          e = emit (fmuld 0 fp_tmp1 fp_tmp2) e;
          e = emit (push (save_mask base_reg)) e;
          ref_ptr = ptr e + 2;
          e = emit (ldr_offset 15 12 (byte_diff adr_trim ref_ptr)) e;
          e = emit (blx_cc_reg ARM_CC_AL 12) e;
          e = emit (pop (save_mask base_reg)) e;
          e = emit_item (Raw (0xee300b10 OR push_bit 12 (ucast top_half))) e
      in ((adr_sin, adr_cos), e))"

text \<open>
  One quadrant: an optional range test that skips the quadrant, an optional subtraction of
  a constant, the call of a polynomial and the move of the result, negated or not.
  \<open>bound\<close> is the upper half word of the range test, \<open>shift\<close> the index of the constant
  subtracted, \<open>adr\<close> the position of the polynomial's address. It returns the position of
  the branch to the exit, when the quadrant has one.
\<close>

definition trig_range ::
  "reg \<Rightarrow> reg \<Rightarrow> reg \<Rightarrow> reg \<Rightarrow> reg \<Rightarrow> int option \<Rightarrow> int option \<Rightarrow> nat \<Rightarrow> bool \<Rightarrow>
     emitter \<Rightarrow> nat option \<times> emitter" where
  "trig_range base_reg top_half cmp_num fp_tmp1 fp_dst bound shift adr negate e0 =
     (let (tmp_ptr, e) =
            (case bound of
               Some b \<Rightarrow>
                 (let e = emit (movt_immed_u16 cmp_num b) e0;
                      e = emit (cmp_reg top_half cmp_num) e;
                      t = ptr e;
                      e = emit (b_cc ARM_CC_GT 0) e
                  in (Some t, e))
             | None \<Rightarrow> (None, e0));
          e = (case shift of
                 Some c \<Rightarrow>
                   (let e = emit (fldd fp_tmp1 base_reg (c * 2)) e
                    in emit (fsubd 0 0 fp_tmp1) e)
               | None \<Rightarrow> e);
          ref_ptr = ptr e + 2;
          e = emit (ldr_offset 15 12 (byte_diff adr ref_ptr)) e;
          e = emit (blx_cc_reg ARM_CC_AL 12) e;
          e = emit (if negate then fnegd fp_dst 0 else fcpyd fp_dst 0) e
      in (case tmp_ptr of
            Some t \<Rightarrow>
              (let exit = ptr e;
                   e = emit (b_cc ARM_CC_AL 0) e;
                   e = patch t (int (ptr e) - int t - 2) e
               in (Some exit, e))
          | None \<Rightarrow> (None, e)))"

definition patch_exit :: "nat option \<Rightarrow> emitter \<Rightarrow> emitter" where
  "patch_exit x e = (case x of Some p \<Rightarrow> patch p (int (ptr e) - int p - 2) e | None \<Rightarrow> e)"

definition EMIT_FSIN :: "emit_env \<Rightarrow> u16 \<Rightarrow> emitter \<Rightarrow> emitter" where
  "EMIT_FSIN env opcode2 e0 =
     (let (fp_dst, e) = RA env (RA_MapFPURegister (ucast (drop_bit 7 opcode2 AND 7))) e0;
          (fp_src, e) = RA env (RA_MapFPURegister (ucast (drop_bit 10 opcode2 AND 7))) e;
          (base_reg, e) = RA env RA_AllocARMRegister e;
          (top_half, e) = RA env RA_AllocARMRegister e;
          (sign, e) = RA env RA_AllocARMRegister e;
          (cmp_num, e) = RA env RA_AllocARMRegister e;
          (fp_tmp1, e) = RA env RA_AllocFPURegister e;
          (fp_tmp2, e) = RA env RA_AllocFPURegister e;
          (fp_dst, e) = RA env (RA_MapFPURegisterForWrite fp_dst) e;
          ((adr_sin, adr_cos), e) =
             trig_prologue base_reg top_half (Some sign) cmp_num fp_src fp_tmp1 fp_tmp2 e;
          (exit_1, e) = trig_range base_reg top_half cmp_num fp_tmp1 fp_dst
                          (Some 0x3fe0) None adr_sin False e;
          (exit_2, e) = trig_range base_reg top_half cmp_num fp_tmp1 fp_dst
                          (Some 0x3ff0) (Some C_0_5) adr_cos False e;
          (exit_3, e) = trig_range base_reg top_half cmp_num fp_tmp1 fp_dst
                          (Some 0x3ff8) (Some C_10P0) adr_sin True e;
          (exit_4, e) = trig_range base_reg top_half cmp_num fp_tmp1 fp_dst
                          None (Some C_1_5) adr_sin True e;
          e = patch_exit exit_1 e;
          e = patch_exit exit_2 e;
          e = patch_exit exit_3 e;
          e = emit (tst_immed sign 0xf80) e;
          e = emit (fnegd_cc ARM_CC_MI fp_dst fp_dst) e;
          e = RA_void (RA_FreeFPURegister fp_tmp1) e;
          e = RA_void (RA_FreeFPURegister fp_tmp2) e;
          e = RA_void (RA_FreeARMRegister base_reg) e;
          e = RA_void (RA_FreeARMRegister top_half) e;
          e = RA_void (RA_FreeARMRegister sign) e;
          e = RA_void (RA_FreeARMRegister cmp_num) e;
          e = EMIT_AdvancePC env (2 * (int ext_count + 1)) e;
          e = e\<lparr>m68k_ptr := m68k_ptr e + ext_count\<rparr>
      in emit_item (Word32 0xfffffff0) e)"

definition EMIT_FCOS :: "emit_env \<Rightarrow> u16 \<Rightarrow> emitter \<Rightarrow> emitter" where
  "EMIT_FCOS env opcode2 e0 =
     (let (fp_dst, e) = RA env (RA_MapFPURegister (ucast (drop_bit 7 opcode2 AND 7))) e0;
          (fp_src, e) = RA env (RA_MapFPURegister (ucast (drop_bit 10 opcode2 AND 7))) e;
          (base_reg, e) = RA env RA_AllocARMRegister e;
          (top_half, e) = RA env RA_AllocARMRegister e;
          (cmp_num, e) = RA env RA_AllocARMRegister e;
          (fp_tmp1, e) = RA env RA_AllocFPURegister e;
          (fp_tmp2, e) = RA env RA_AllocFPURegister e;
          (fp_dst, e) = RA env (RA_MapFPURegisterForWrite fp_dst) e;
          ((adr_sin, adr_cos), e) =
             trig_prologue base_reg top_half None cmp_num fp_src fp_tmp1 fp_tmp2 e;
          (exit_1, e) = trig_range base_reg top_half cmp_num fp_tmp1 fp_dst
                          (Some 0x3fe0) None adr_cos False e;
          (exit_2, e) = trig_range base_reg top_half cmp_num fp_tmp1 fp_dst
                          (Some 0x3ff0) (Some C_0_5) adr_sin True e;
          (exit_3, e) = trig_range base_reg top_half cmp_num fp_tmp1 fp_dst
                          (Some 0x3ff8) (Some C_10P0) adr_cos True e;
          (exit_4, e) = trig_range base_reg top_half cmp_num fp_tmp1 fp_dst
                          None (Some C_1_5) adr_sin False e;
          e = patch_exit exit_1 e;
          e = patch_exit exit_2 e;
          e = patch_exit exit_3 e;
          e = RA_void (RA_FreeFPURegister fp_tmp1) e;
          e = RA_void (RA_FreeFPURegister fp_tmp2) e;
          e = RA_void (RA_FreeARMRegister base_reg) e;
          e = RA_void (RA_FreeARMRegister top_half) e;
          e = RA_void (RA_FreeARMRegister cmp_num) e;
          e = EMIT_AdvancePC env (2 * (int ext_count + 1)) e;
          e = e\<lparr>m68k_ptr := m68k_ptr e + ext_count\<rparr>
      in emit_item (Word32 0xfffffff0) e)"

definition EMIT_FNOP :: "emit_env \<Rightarrow> emitter \<Rightarrow> emitter" where
  "EMIT_FNOP env e0 =
     (let e = EMIT_AdvancePC env (2 * (int ext_count + 1)) e0;
          e = e\<lparr>m68k_ptr := m68k_ptr e + ext_count\<rparr>
      in EMIT_FlushPC env e)"

text \<open>
  \<^verbatim>\<open>EMIT_lineF\<close>: the test for FABS is an \<^verbatim>\<open>if\<close> of its own; the chain that ends in the
  \<^verbatim>\<open>udf\<close> word starts at the test for FMOVECR, with the opcode words read on entry.
\<close>

definition EMIT_lineF :: "emit_env \<Rightarrow> (nat \<Rightarrow> u16) \<Rightarrow> emitter \<Rightarrow> emitter" where
  "EMIT_lineF env m68k e0 =
     (let opcode = m68k (m68k_ptr e0);
          opcode2 = m68k (m68k_ptr e0 + 1);
          e = e0\<lparr>m68k_ptr := m68k_ptr e0 + 1\<rparr>;
          e = (if opcode = 0xf200 \<and> opcode2 AND 0x407f = 0x0018
               then EMIT_FABS env opcode2 e else e)
      in if opcode = 0xf200 \<and> opcode2 AND 0xfc00 = 0x5c00 then EMIT_FMOVECR env opcode2 e
         else if opcode = 0xf200 \<and> opcode2 AND 0xe07f = 0x000e then EMIT_FSIN env opcode2 e
         else if opcode = 0xf200 \<and> opcode2 AND 0xe07f = 0x001d then EMIT_FCOS env opcode2 e
         else if opcode = 0xf280 \<and> opcode2 = 0 then EMIT_FNOP env e
         else emit (udf opcode) e)"

text \<open>The opcode pairs the emitter recognises, by the tests of the source.\<close>

definition is_FABS :: "u16 \<Rightarrow> u16 \<Rightarrow> bool" where
  "is_FABS opcode opcode2 = (opcode = 0xf200 \<and> opcode2 AND 0x407f = 0x0018)"

definition is_FMOVECR :: "u16 \<Rightarrow> u16 \<Rightarrow> bool" where
  "is_FMOVECR opcode opcode2 = (opcode = 0xf200 \<and> opcode2 AND 0xfc00 = 0x5c00)"

definition is_FSIN :: "u16 \<Rightarrow> u16 \<Rightarrow> bool" where
  "is_FSIN opcode opcode2 = (opcode = 0xf200 \<and> opcode2 AND 0xe07f = 0x000e)"

definition is_FCOS :: "u16 \<Rightarrow> u16 \<Rightarrow> bool" where
  "is_FCOS opcode opcode2 = (opcode = 0xf200 \<and> opcode2 AND 0xe07f = 0x001d)"

definition is_FNOP :: "u16 \<Rightarrow> u16 \<Rightarrow> bool" where
  "is_FNOP opcode opcode2 = (opcode = 0xf280 \<and> opcode2 = 0)"

definition is_udf :: "item \<Rightarrow> bool" where
  "is_udf x = (case x of Insn (udf w) \<Rightarrow> True | _ \<Rightarrow> False)"

definition udf_count :: "emitter \<Rightarrow> nat" where
  "udf_count e = length (filter is_udf (stream e))"

definition guest_pair :: "u16 \<Rightarrow> u16 \<Rightarrow> nat \<Rightarrow> u16" where
  "guest_pair opcode opcode2 n = (if n = 0 then opcode else opcode2)"

section \<open>Guest context and dispatcher (start.c)\<close>

text \<open>
  Modelled from the spec: \<^verbatim>\<open>struct M68KState\<close> is declared in \<^verbatim>\<open>M68k.h\<close>, which is not under
  \<^verbatim>\<open>src/\<close>. The record holds the fields of the guest state that \<^verbatim>\<open>start.c\<close> reads and writes,
  with the widths of the loads and stores that access them. Register arrays are functions
  of the index; the code touches the indices 0 to 7.
\<close>

record M68KState =
  D :: "nat \<Rightarrow> u32"
  A :: "nat \<Rightarrow> u32"
  PC :: u32
  SR :: u16
  USP :: u32
  ISP :: u32
  MSP :: u32
  FP :: "nat \<Rightarrow> u64"
  PINT :: u32
  CACR :: u32
  VBR :: u32
  IPL0 :: u32

text \<open>
  Modelled from the spec: the bits of the status register and of CACR are named in
  \<^verbatim>\<open>M68k.h\<close>, which is not under \<^verbatim>\<open>src/\<close>. The values are those of the 68k family, as the
  immediates of the assembly confirm (\<^verbatim>\<open>#0x2000\<close> sets S, \<^verbatim>\<open>#0xc000\<close> clears the trace bits).
\<close>

definition SR_S :: u16 where "SR_S = 0x2000"
definition SR_M :: u16 where "SR_M = 0x1000"
definition SRB_S :: nat where "SRB_S = 13"
definition SRB_M :: nat where "SRB_M = 12"
definition SRB_IPL :: nat where "SRB_IPL = 8"
definition CACRB_IE :: nat where "CACRB_IE = 15"

text \<open>
  The machine the dispatcher runs on: the AArch64 registers that carry guest state
  (\<^verbatim>\<open>REG_D0..REG_D7\<close>, \<^verbatim>\<open>REG_A0..REG_A7\<close>, \<^verbatim>\<open>REG_PC\<close> as 64-bit \<^verbatim>\<open>x\<close> registers whose low
  halves are the \<^verbatim>\<open>w\<close> registers, \<^verbatim>\<open>REG_FP0..REG_FP7\<close> as \<^verbatim>\<open>d\<close> registers), the system
  registers \<^verbatim>\<open>TPIDR_EL0\<close> (guest SR) and \<^verbatim>\<open>TPIDR_EL1\<close> (guest PC of the fragment in \<^verbatim>\<open>x12\<close>),
  the context record that \<^verbatim>\<open>TPIDRRO_EL0\<close> points to, guest memory as bytes, the memory of the
  translation-unit cache as 64-bit cells, and the log of what the dispatcher did.
\<close>

datatype event =
    EvFind u32
  | EvVerify u64
  | EvBuild u32
  | EvEnter u64
  | EvInterrupt u32

record machine =
  xD :: "nat \<Rightarrow> u64"
  xA :: "nat \<Rightarrow> u64"
  xPC :: u64
  dFP :: "nat \<Rightarrow> u64"
  TPIDR_EL0 :: u64
  TPIDR_EL1 :: u64
  x12 :: u64
  ctx :: M68KState
  gmem :: "u64 \<Rightarrow> u8"
  heap :: "u64 \<Rightarrow> u64"
  trace :: "event list"

text \<open>\<^verbatim>\<open>ldr w, [m]\<close> and \<^verbatim>\<open>ldp w, w, [m]\<close> clear the upper half of the \<^verbatim>\<open>x\<close> register.\<close>

definition ldr_w :: "u32 \<Rightarrow> u64" where
  "ldr_w v = ucast v"

definition w_of :: "u64 \<Rightarrow> u32" where
  "w_of x = ucast x"

definition M68K_LoadContext :: "machine \<Rightarrow> machine" where
  "M68K_LoadContext m =
     (let c = ctx m;
          m = m\<lparr>xD := (\<lambda>i. if i < 8 then ldr_w (D c i) else xD m i)\<rparr>;
          m = m\<lparr>xA := (\<lambda>i. if i < 8 then ldr_w (A c i) else xA m i)\<rparr>;
          m = m\<lparr>xPC := ldr_w (PC c)\<rparr>;
          m = m\<lparr>dFP := (\<lambda>i. if i < 8 then FP c i else dFP m i)\<rparr>;
          m = m\<lparr>TPIDR_EL0 := ucast (SR c)\<rparr>
      in if SR c AND SR_S \<noteq> 0 then
           if SR c AND SR_M \<noteq> 0
           then m\<lparr>xA := (xA m)(7 := ldr_w (MSP c))\<rparr>
           else m\<lparr>xA := (xA m)(7 := ldr_w (ISP c))\<rparr>
         else m\<lparr>xA := (xA m)(7 := ldr_w (USP c))\<rparr>)"

definition M68K_SaveContext :: "machine \<Rightarrow> machine" where
  "M68K_SaveContext m =
     (let c = ctx m;
          c = c\<lparr>D := (\<lambda>i. if i < 8 then w_of (xD m i) else D c i)\<rparr>;
          c = c\<lparr>A := (\<lambda>i. if i < 8 then w_of (xA m i) else A c i)\<rparr>;
          c = c\<lparr>PC := w_of (xPC m)\<rparr>;
          c = c\<lparr>FP := (\<lambda>i. if i < 8 then dFP m i else FP c i)\<rparr>;
          c = c\<lparr>SR := ucast (TPIDR_EL0 m)\<rparr>;
          c = (if SR c AND SR_S \<noteq> 0 then
                 if SR c AND SR_M \<noteq> 0
                 then c\<lparr>MSP := w_of (xA m 7)\<rparr>
                 else c\<lparr>ISP := w_of (xA m 7)\<rparr>
               else c\<lparr>USP := w_of (xA m 7)\<rparr>)
      in m\<lparr>ctx := c\<rparr>)"

text \<open>
  The guest-visible state that lives in host registers: the low halves of the data,
  address and PC registers, the low 16 bits of \<^verbatim>\<open>TPIDR_EL0\<close>, and the FPU registers.
\<close>

record guest =
  gD :: "nat \<Rightarrow> u32"
  gA :: "nat \<Rightarrow> u32"
  gPC :: u32
  gSR :: u16
  gFP :: "nat \<Rightarrow> u64"

definition guest_of :: "machine \<Rightarrow> guest" where
  "guest_of m =
     \<lparr>gD = (\<lambda>i. if i < 8 then w_of (xD m i) else 0),
      gA = (\<lambda>i. if i < 8 then w_of (xA m i) else 0),
      gPC = w_of (xPC m),
      gSR = ucast (TPIDR_EL0 m),
      gFP = (\<lambda>i. if i < 8 then dFP m i else 0)\<rparr>"

text \<open>
  The stack bank that the bits S and M of a status register select, in the words of the
  specification: MSP when both are set, ISP when S is set and M is clear, USP when S is
  clear.
\<close>

datatype bank = Bank_USP | Bank_ISP | Bank_MSP

definition active_bank :: "u16 \<Rightarrow> bank" where
  "active_bank sr =
     (if bit sr 13 then (if bit sr 12 then Bank_MSP else Bank_ISP) else Bank_USP)"

definition bank_value :: "bank \<Rightarrow> M68KState \<Rightarrow> u32" where
  "bank_value b c = (case b of Bank_USP \<Rightarrow> USP c | Bank_ISP \<Rightarrow> ISP c | Bank_MSP \<Rightarrow> MSP c)"

subsection \<open>Lookup of a translation unit\<close>

text \<open>
  \<^verbatim>\<open>FindUnit\<close> is written in assembly. It reads and writes 64-bit cells at the offsets 0, 8,
  16, 24 and 32 of 8-byte aligned structures, so the cache memory is a map from the address
  of a cell to its content. \<open>icache\<close> is the value of the global \<^verbatim>\<open>ICache\<close>: the address of
  an array of list heads of three cells (24 bytes) each.
\<close>

definition hash_pc :: "u32 \<Rightarrow> u64" where
  "hash_pc pc = ldr_w (pc XOR drop_bit 16 pc) AND 0xffff"

definition bucket_head :: "u64 \<Rightarrow> u32 \<Rightarrow> u64" where
  "bucket_head icache pc =
     (let x0 = hash_pc pc; x0 = x0 + push_bit 1 x0 in icache + push_bit 3 x0)"

text \<open>
  The walk (labels \<^verbatim>\<open>1\<close> and \<^verbatim>\<open>3\<close>): \<open>x0\<close> is the current node; the walk ends with 0 when the
  first cell of the node is 0 and with the node when the low half of its cell at offset 32
  equals guest PC. On a list that never ends the walk does not return (\<open>None\<close>).
\<close>

partial_function (option) find_walk :: "(u64 \<Rightarrow> u64) \<Rightarrow> u32 \<Rightarrow> u64 \<Rightarrow> u64 option" where
  "find_walk h pc x0 =
     (let x4 = h x0
      in if x4 = 0 then Some 0
         else if w_of (h (x0 + 32)) = pc then Some x0
         else find_walk h pc x4)"

text \<open>The code behind label \<^verbatim>\<open>2\<close>, run on a hit with the unit in \<open>x0\<close>.\<close>

definition promote :: "u64 \<Rightarrow> (u64 \<Rightarrow> u64) \<Rightarrow> (u64 \<Rightarrow> u64)" where
  "promote x0 h =
     (let x4 = h (x0 + 24);
          x5 = h (x4 + 8)
      in if x5 = 0 then h
         else
           let x6 = h (x0 + 16);
               h = h(x0 + 16 := x4);
               h = h(x0 + 24 := x5);
               x7 = x0 + 0x10;
               h = h(x5 := x7);
               h = h(x4 := x6);
               h = h(x4 + 8 := x7);
               h = h(x6 + 8 := x4)
           in h)"

definition FindUnit :: "u64 \<Rightarrow> u32 \<Rightarrow> (u64 \<Rightarrow> u64) \<Rightarrow> (u64 \<times> (u64 \<Rightarrow> u64)) option" where
  "FindUnit icache pc h =
     (case find_walk h pc (h (bucket_head icache pc)) of
        None \<Rightarrow> None
      | Some x0 \<Rightarrow> if x0 = 0 then Some (0, h) else Some (x0, promote x0 h))"







definition node_cells :: "u64 list \<Rightarrow> u64 list" where
  "node_cells ns = concat (map (\<lambda>n. [n, n + 8]) ns)"


text \<open>
  A small cache: the bucket of guest PC \<open>0x00010001\<close> and \<open>0x00020002\<close> (both hash to 0) at
  \<open>0x1000\<close> holds the units \<open>0x2000\<close> and \<open>0x3000\<close> in this order; the list through the nodes
  at offset 16, with its head at \<open>0x8000\<close>, holds them in the same order.
\<close>

definition heap_example :: "u64 \<Rightarrow> u64" where
  "heap_example =
     (\<lambda>_. 0)(0x1000 := 0x2000, 0x1008 := 0, 0x1010 := 0x3000,
             0x2000 := 0x3000, 0x2008 := 0x1000, 0x2020 := 0x00010001,
             0x3000 := 0x1008, 0x3008 := 0x2000, 0x3020 := 0x00020002,
             0x8000 := 0x2010, 0x8008 := 0, 0x8010 := 0x3010,
             0x2010 := 0x3010, 0x2018 := 0x8000,
             0x3010 := 0x8008, 0x3018 := 0x2010)"

subsection \<open>The execution loop\<close>

text \<open>Guest memory is read and written big-endian, a halfword or a word at a time.\<close>

definition store16 :: "(u64 \<Rightarrow> u8) \<Rightarrow> u64 \<Rightarrow> u16 \<Rightarrow> (u64 \<Rightarrow> u8)" where
  "store16 mm a v = mm(a := ucast (drop_bit 8 v), a + 1 := ucast v)"

definition store32 :: "(u64 \<Rightarrow> u8) \<Rightarrow> u64 \<Rightarrow> u32 \<Rightarrow> (u64 \<Rightarrow> u8)" where
  "store32 mm a v =
     mm(a := ucast (drop_bit 24 v), a + 1 := ucast (drop_bit 16 v),
        a + 2 := ucast (drop_bit 8 v), a + 3 := ucast v)"

definition read16 :: "(u64 \<Rightarrow> u8) \<Rightarrow> u64 \<Rightarrow> u16" where
  "read16 mm a = push_bit 8 (ucast (mm a)) OR ucast (mm (a + 1))"

definition read32 :: "(u64 \<Rightarrow> u8) \<Rightarrow> u64 \<Rightarrow> u32" where
  "read32 mm a =
     push_bit 24 (ucast (mm a)) OR push_bit 16 (ucast (mm (a + 1))) OR
     push_bit 8 (ucast (mm (a + 2))) OR ucast (mm (a + 3))"

text \<open>\<^verbatim>\<open>clz w3, w3\<close>: the number of zero bits above the highest set bit of a 32-bit value.\<close>

definition clz32 :: "u32 \<Rightarrow> nat" where
  "clz32 x = length (takeWhile Not (rev (map (bit x) [0..<32])))"

text \<open>
  What the loop calls and \<^verbatim>\<open>src/\<close> does not hold is a parameter: whether the build defines
  \<^verbatim>\<open>PISTORM\<close>, the value of \<^verbatim>\<open>ICache\<close>, the offset of \<^verbatim>\<open>mt_ARMEntryPoint\<close> in a unit, the
  effect of running the fragment at an entry point (\<^verbatim>\<open>blr x12\<close>), the translator
  \<^verbatim>\<open>M68K_GetTranslationUnit\<close>, the check \<^verbatim>\<open>M68K_VerifyUnit\<close>, and the status word that the
  PiStorm bus returns. The model is of the build with \<^verbatim>\<open>EMU68_LOG_USES\<close> and
  \<^verbatim>\<open>EMU68_LOG_FETCHES\<close> off.
\<close>

record disp_env =
  PISTORM :: bool
  icache :: u64
  off_entry :: u64
  run_fragment :: "u64 \<Rightarrow> machine \<Rightarrow> machine"
  M68K_GetTranslationUnit :: "u32 \<Rightarrow> machine \<Rightarrow> u64 \<times> machine"
  M68K_VerifyUnit :: "u64 \<Rightarrow> machine \<Rightarrow> u64 \<times> machine"
  gpio_status :: "machine \<Rightarrow> u32"

definition log_event :: "event \<Rightarrow> machine \<Rightarrow> machine" where
  "log_event ev m = m\<lparr>trace := trace m @ [ev]\<rparr>"

text \<open>
  The code both variants of label \<^verbatim>\<open>9\<close> share, from the test of the S bit on: \<open>w2\<close> is the
  old SR, \<open>w3\<close> the accepted level.
\<close>

definition switch_stack :: "u32 \<Rightarrow> machine \<Rightarrow> machine" where
  "switch_stack w2 m =
     (if bit w2 SRB_S then m
      else
        let m = m\<lparr>ctx := (ctx m)\<lparr>USP := w_of (xA m 7)\<rparr>\<rparr>
        in if bit w2 SRB_M
           then m\<lparr>xA := (xA m)(7 := ldr_w (MSP (ctx m)))\<rparr>
           else m\<lparr>xA := (xA m)(7 := ldr_w (ISP (ctx m)))\<rparr>)"

definition bfi_ipm :: "u32 \<Rightarrow> u32 \<Rightarrow> u32" where
  "bfi_ipm w5 w3 = (w5 AND NOT (push_bit SRB_IPL 7)) OR push_bit SRB_IPL (w3 AND 7)"

definition push_frame :: "u32 \<Rightarrow> u32 \<Rightarrow> machine \<Rightarrow> machine" where
  "push_frame w2 level m =
     (let w5 = bfi_ipm w2 level;
          w3 = push_bit 2 level + 0x60;
          sp = xA m 7 - 2;
          m = m\<lparr>gmem := store16 (gmem m) sp (ucast w3), xA := (xA m)(7 := sp)\<rparr>;
          sp = xA m 7 - 4;
          m = m\<lparr>gmem := store32 (gmem m) sp (w_of (xPC m)), xA := (xA m)(7 := sp)\<rparr>;
          sp = xA m 7 - 2;
          m = m\<lparr>gmem := store16 (gmem m) sp (ucast w2), xA := (xA m)(7 := sp)\<rparr>;
          w5 = w5 AND NOT 0xc000;
          w5 = w5 OR 0x2000;
          m = m\<lparr>TPIDR_EL0 := ldr_w w5\<rparr>;
          x1 = ldr_w (VBR (ctx m))
      in m\<lparr>xPC := ldr_w (read32 (gmem m) (x1 + ldr_w w3))\<rparr>)"

text \<open>Label \<^verbatim>\<open>9\<close> of the build without \<^verbatim>\<open>PISTORM\<close>; \<open>w1\<close> is \<^verbatim>\<open>PINT\<close> as read at label \<^verbatim>\<open>1\<close>.\<close>

definition unmasked :: "u32 \<Rightarrow> u32 \<Rightarrow> u32" where
  "unmasked w2 w1 =
     (let w3 = drop_bit SRB_IPL w2 AND 7;
          w4 = (2 :: u32);
          w4 = push_bit (unat w3 mod 32) w4;
          w4 = w4 - 1;
          w4 = w4 AND NOT 0x80
      in w1 AND NOT w4)"

definition accepted_level :: "u32 \<Rightarrow> u32" where
  "accepted_level w3 = (let w3 = word_of_nat (clz32 w3); w3 = - w3 in w3 + 31)"

definition check_interrupt :: "machine \<Rightarrow> machine" where
  "check_interrupt m =
     (let w1 = PINT (ctx m);
          w2 = w_of (TPIDR_EL0 m);
          w3 = unmasked w2 w1
      in if w3 = 0 then m
         else
           let m = switch_stack w2 m;
               w3 = accepted_level w3;
               w4 = push_bit (unat w3 mod 32) (1 :: u32);
               w1 = w1 AND NOT w4;
               m = m\<lparr>ctx := (ctx m)\<lparr>PINT := w1\<rparr>\<rparr>
           in push_frame w2 w3 (log_event (EvInterrupt w3) m))"

text \<open>
  Label \<^verbatim>\<open>9\<close> of the build with \<^verbatim>\<open>PISTORM\<close>: the level is read from the bus (the stores to the
  GPIO registers are device traffic and leave the machine as it is).
\<close>

definition rev32 :: "u32 \<Rightarrow> u32" where
  "rev32 w =
     push_bit 24 (w AND 0xff) OR push_bit 8 (w AND 0xff00) OR
     (drop_bit 8 w AND 0xff00) OR drop_bit 24 w"

definition check_interrupt_pistorm :: "disp_env \<Rightarrow> machine \<Rightarrow> machine" where
  "check_interrupt_pistorm env m =
     (let w3 = rev32 (gpio_status env m);
          w1 = drop_bit 21 w3 AND 7;
          w2 = w_of (TPIDR_EL0 m);
          w3 = drop_bit SRB_IPL w2 AND 7
      in if w1 = 7 \<or> sint w3 < sint w1
         then push_frame w2 w1 (log_event (EvInterrupt w1) (switch_stack w2 m))
         else m)"

definition enter :: "disp_env \<Rightarrow> machine \<Rightarrow> machine" where
  "enter env m = run_fragment env (x12 m) (log_event (EvEnter (x12 m)) m)"

definition find_unit :: "disp_env \<Rightarrow> machine \<Rightarrow> (u64 \<times> machine) option" where
  "find_unit env m =
     (case FindUnit (icache env) (w_of (xPC m)) (heap m) of
        None \<Rightarrow> None
      | Some (x0, h) \<Rightarrow> Some (x0, (log_event (EvFind (w_of (xPC m))) m)\<lparr>heap := h\<rparr>))"

definition get_unit :: "disp_env \<Rightarrow> u32 \<Rightarrow> machine \<Rightarrow> u64 \<times> machine" where
  "get_unit env w0 m = M68K_GetTranslationUnit env w0 (log_event (EvBuild w0) m)"

text \<open>Label \<^verbatim>\<open>13\<close>: the cache is on and guest PC is not the one of the fragment in \<^verbatim>\<open>x12\<close>.\<close>

definition dispatch_cached :: "disp_env \<Rightarrow> machine \<Rightarrow> machine option" where
  "dispatch_cached env m =
     (case find_unit env m of
        None \<Rightarrow> None
      | Some (x0, m) \<Rightarrow>
          if x0 \<noteq> 0 then
            let m = m\<lparr>x12 := heap m (x0 + off_entry env)\<rparr>;
                m = m\<lparr>TPIDR_EL1 := xPC m\<rparr>
            in Some (enter env m)
          else
            let m = M68K_SaveContext m;
                w0 = w_of (xPC m);
                m = m\<lparr>TPIDR_EL1 := xPC m\<rparr>;
                (x0, m) = get_unit env w0 m;
                m = m\<lparr>x12 := heap m (x0 + off_entry env)\<rparr>;
                m = M68K_LoadContext m
            in Some (enter env m))"

text \<open>Label \<^verbatim>\<open>2\<close>: the instruction cache of the guest is off.\<close>

definition dispatch_uncached :: "disp_env \<Rightarrow> machine \<Rightarrow> machine option" where
  "dispatch_uncached env m =
     (let m = M68K_SaveContext m;
          m = m\<lparr>TPIDR_EL1 := 0xffffffff\<rparr>;
          w20 = w_of (xPC m)
      in case find_unit env m of
           None \<Rightarrow> None
         | Some (x0, m) \<Rightarrow>
             let (x0, m) = M68K_VerifyUnit env x0 (log_event (EvVerify x0) m);
                 (x0, m) = (if x0 \<noteq> 0 then (x0, m) else get_unit env w20 m);
                 m = m\<lparr>x12 := heap m (x0 + off_entry env)\<rparr>;
                 m = M68K_LoadContext m
             in Some (enter env m))"

text \<open>
  One pass from label \<^verbatim>\<open>1\<close>, with the part from label \<^verbatim>\<open>99\<close> on as a function of its own:
  the result is the machine and whether the loop has been left (label \<^verbatim>\<open>4\<close>), or \<open>None\<close>
  when the lookup does not return.
\<close>

definition dispatch99 :: "disp_env \<Rightarrow> machine \<Rightarrow> (machine \<times> bool) option" where
  "dispatch99 env m =
     (if \<not> bit (CACR (ctx m)) CACRB_IE
      then map_option (\<lambda>m. (m, False)) (dispatch_uncached env m)
      else if w_of (TPIDR_EL1 m) \<noteq> w_of (xPC m)
      then map_option (\<lambda>m. (m, False)) (dispatch_cached env m)
      else Some (enter env m, False))"

definition iteration :: "disp_env \<Rightarrow> machine \<Rightarrow> (machine \<times> bool) option" where
  "iteration env m =
     (if \<not> PISTORM env \<and> w_of (xPC m) = 0 then Some (M68K_SaveContext m, True)
      else
        let m = (if PISTORM env
                 then (if IPL0 (ctx m) = 0 then check_interrupt_pistorm env m else m)
                 else (if PINT (ctx m) \<noteq> 0 then check_interrupt m else m))
        in dispatch99 env m)"

partial_function (option) dispatch_loop :: "disp_env \<Rightarrow> machine \<Rightarrow> machine option" where
  "dispatch_loop env m =
     Option.bind (iteration env m)
       (\<lambda>(m', left). if left then Some m' else dispatch_loop env m')"

definition ExecutionLoop :: "disp_env \<Rightarrow> machine \<Rightarrow> machine option" where
  "ExecutionLoop env m = dispatch_loop env (M68K_LoadContext m)"

text \<open>
  The pending level the dispatcher is to accept, in the words of the specification: the
  highest level from 1 to 7 that is recorded in \<^verbatim>\<open>PINT\<close> and is above the mask of SR, level 7
  being accepted whatever the mask.
\<close>

definition IPM_of :: "u32 \<Rightarrow> nat" where
  "IPM_of sr = unat (drop_bit 8 sr AND 7)"

definition unmasked_levels :: "u32 \<Rightarrow> u32 \<Rightarrow> nat list" where
  "unmasked_levels sr pint =
     filter (\<lambda>l. bit pint l \<and> (IPM_of sr < l \<or> l = 7)) [7, 6, 5, 4, 3, 2, 1]"

text \<open>
  What the specification says of an accepted interrupt of level \<open>l\<close>, between the machine
  \<open>m\<close> at the top of the iteration and the machine \<open>m'\<close> behind the check: A7 is saved to
  USP when user mode is left, and the stack is then ISP or MSP by the M bit; the frame
  word \<open>(24 + l) * 4\<close> (format 0 with the vector offset), the old PC and the old SR are
  pushed; the trace bits are clear, S is set and IPM is \<open>l\<close> in the new SR, whose other bits
  are the old ones; the new PC is read from \<open>VBR + (24 + l) * 4\<close>. The level is no longer
  pending.
\<close>

definition frame_base :: "machine \<Rightarrow> u64" where
  "frame_base m =
     (let sr = w_of (TPIDR_EL0 m)
      in if bit sr 13 then xA m 7
         else ldr_w (if bit sr 12 then MSP (ctx m) else ISP (ctx m)))"

definition interrupt_taken :: "nat \<Rightarrow> machine \<Rightarrow> machine \<Rightarrow> bool" where
  "interrupt_taken l m m' =
     (let sr = w_of (TPIDR_EL0 m); sp = frame_base m
      in USP (ctx m') = (if bit sr 13 then USP (ctx m) else w_of (xA m 7)) \<and>
         xA m' 7 = sp - 8 \<and>
         read16 (gmem m') (sp - 2) = word_of_nat ((24 + l) * 4) \<and>
         read32 (gmem m') (sp - 6) = w_of (xPC m) \<and>
         read16 (gmem m') (sp - 8) = ucast sr \<and>
         TPIDR_EL0 m' =
           ldr_w ((sr AND NOT 0xc700) OR 0x2000 OR push_bit 8 (word_of_nat l)) \<and>
         xPC m' = ldr_w (read32 (gmem m') (ldr_w (VBR (ctx m)) + word_of_nat ((24 + l) * 4))) \<and>
         PINT (ctx m') = PINT (ctx m) AND NOT (push_bit l 1))"

text \<open>Two builds and a machine at the top of an iteration.\<close>

definition env_plain :: disp_env where
  "env_plain =
     \<lparr>PISTORM = False, icache = 0x1000, off_entry = 0x40,
      run_fragment = (\<lambda>entry m. m),
      M68K_GetTranslationUnit = (\<lambda>pc m. (0x2000, m)),
      M68K_VerifyUnit = (\<lambda>u m. (u, m)),
      gpio_status = (\<lambda>m. 0)\<rparr>"

definition env_pistorm :: disp_env where
  "env_pistorm = env_plain\<lparr>PISTORM := True\<rparr>"

definition ctx_example :: "u32 \<Rightarrow> M68KState" where
  "ctx_example pint =
     \<lparr>D = (\<lambda>_. 0), A = (\<lambda>_. 0), PC = 0, SR = 0x2300, USP = 0x7000, ISP = 0x6000,
      MSP = 0x5000, FP = (\<lambda>_. 0), PINT = pint, CACR = 0x8000, VBR = 0x100, IPL0 = 1\<rparr>"

definition machine_example :: "u64 \<Rightarrow> u64 \<Rightarrow> u32 \<Rightarrow> machine" where
  "machine_example pc sr pint =
     \<lparr>xD = (\<lambda>_. 0), xA = (\<lambda>_. 0)(7 := 0x6000), xPC = pc, dFP = (\<lambda>_. 0),
      TPIDR_EL0 = sr, TPIDR_EL1 = pc, x12 = 0x4000, ctx = ctx_example pint,
      gmem = (\<lambda>_. 0)(0x177 := 0x12), heap = heap_example, trace = []\<rparr>"

text \<open>The bits of a 32-bit value from the top down, as \<^verbatim>\<open>clz\<close> scans them.\<close>

definition bits32 :: "u32 \<Rightarrow> bool list" where
  "bits32 x = rev (map (bit x) [0..<32])"
section \<open>Properties of the range trimming\<close>

lemma clzll_le: "clzll x \<le> 64"
  unfolding clzll_def
  by (rule order_trans [OF length_takeWhile_le]) simp

lemma bit11_uint: "uint (x :: u32) < 2048 \<Longrightarrow> \<not> bit x 11"
proof -
  assume a: "uint x < 2048"
  have "uint x div 2 ^ 11 = 0" using a by simp
  then have "\<not> bit (uint x) 11" by (simp add: bit_iff_odd)
  then show ?thesis by (simp add: bit_uint_iff)
qed

lemma exp_sub_bit11:
  assumes "k \<le> 64"
  shows "\<not> bit ((0x3ff :: u32) - word_of_int (int k - 11)) 11"
proof -
  have "(0x3ff :: u32) = word_of_int 1023" by simp
  then have e: "(0x3ff :: u32) - word_of_int (int k - 11) = word_of_int (1034 - int k)"
    by (simp only: wi_hom_sub) simp
  have g: "uint (word_of_int z :: u32) = z mod 2 ^ 32" for z
    by (simp add: uint_word_of_int)
  have "uint (word_of_int (1034 - int k) :: u32) = (1034 - int k) mod 2 ^ 32"
    by (rule g)
  also have "\<dots> = 1034 - int k" using assms by (intro mod_pos_pos_trivial) auto
  finally have u: "uint (word_of_int (1034 - int k) :: u32) = 1034 - int k" .
  have "uint ((0x3ff :: u32) - word_of_int (int k - 11)) < 2048"
    unfolding e u by simp
  then show ?thesis by (rule bit11_uint)
qed

lemma and_7ff_bit11: "\<not> bit (x AND (0x7ff :: u32)) 11"
  by (simp add: bit_simps)

lemma set_i32_0_bit63: "bit (set_i32_0 w v) 63 = bit v 31"
  by (simp add: set_i32_0_def bit_simps)

lemma i32_0_bit31: "bit (i32_0 w OR push_bit 20 e) 31 = (bit w 63 \<or> bit e 11)"
  by (simp add: i32_0_def bit_simps)

lemma man_bit63_a: "\<not> bit (x AND (0x000fffffffffffff :: u64)) 63"
  by (simp add: bit_simps)

lemma man_bit63_b: "\<not> bit (x AND (0x001fffffffffffff :: u64)) 63"
  by (simp add: bit_simps)

lemma out_bit63: "bit (x AND NOT (0x0010000000000000 :: u64)) 63 = bit x 63"
  by (simp add: bit_simps)

lemma sign_of_out:
  "\<not> bit man1 63 \<Longrightarrow> \<not> bit exp1 11 \<Longrightarrow>
   \<not> bit (set_i32_0 (man1 AND NOT (0x0010000000000000 :: u64))
          (i32_0 (man1 AND NOT (0x0010000000000000 :: u64)) OR push_bit 20 exp1)) 63"
  by (simp only: set_i32_0_bit63 i32_0_bit31 out_bit63) simp

lemma fields_ok:
  assumes "(if man0 \<noteq> 0 \<and> 0x3ff < exp0 \<and> exp0 < 0x3ff + 52 then
               let man = push_bit (unat (exp0 - 0x3ff)) man0 AND 0x001fffffffffffff;
                   exp = (0x3ff :: u32)
               in if man \<noteq> 0 then
                    let d = int (clzll man) - 11
                    in if d \<noteq> 0
                       then (exp - word_of_int d,
                             push_bit (nat d) man AND 0x000fffffffffffff)
                       else (exp, man)
                  else (0, man)
             else if man0 = 0 \<and> 0x3ff < exp0 then (0, man0)
             else (exp0, man0)) = (e, m)"
    and "\<not> bit man0 63" and "\<not> bit (exp0 :: u32) 11"
  shows "\<not> bit (m :: u64) 63 \<and> \<not> bit e 11"
proof (cases "man0 \<noteq> 0 \<and> 0x3ff < exp0 \<and> exp0 < 0x3ff + 52")
  case False
  then show ?thesis using assms by (auto split: if_splits)
next
  case True
  define man where "man = push_bit (unat (exp0 - 0x3ff)) man0 AND 0x001fffffffffffff"
  have mb: "\<not> bit man 63" unfolding man_def by (rule man_bit63_b)
  show ?thesis
  proof (cases "man = 0")
    case t: True
    then have "e = 0 \<and> m = man" using assms(1) True by (simp add: Let_def man_def)
    then show ?thesis using mb by simp
  next
    case f: False
    show ?thesis
    proof (cases "int (clzll man) - 11 = 0")
      case True
      then have "e = 0x3ff \<and> m = man" using assms(1) \<open>man0 \<noteq> 0 \<and> 0x3ff < exp0 \<and> exp0 < 0x3ff + 52\<close> f
        by (simp add: Let_def man_def)
      then show ?thesis using mb by (simp add: bit_simps)
    next
      case False
      then have "e = 0x3ff - word_of_int (int (clzll man) - 11) \<and> 
           m = push_bit (nat (int (clzll man) - 11)) man AND 0x000fffffffffffff" 
        using assms(1) \<open>man0 \<noteq> 0 \<and> 0x3ff < exp0 \<and> exp0 < 0x3ff + 52\<close> f
        by (simp add: Let_def man_def)
      then show ?thesis using exp_sub_bit11 [OF clzll_le, of man] man_bit63_a by simp
    qed
  qed
qed


text \<open>
  Claim C10. For every 64-bit pattern, negative values, infinities and NaNs included, the
  pattern returned by \<^verbatim>\<open>TrimDoubleRange\<close> has its sign bit (bit 63) clear: the result is
  put together from a mantissa masked to the low 52 bits and an exponent that stays below
  \<open>0x800\<close>, so that its shift by 20 stays within bits 20..30 of the upper word.
\<close>

theorem TrimDoubleRange_sign_clear: "\<not> double_sign (TrimDoubleRange n)"
proof -
  define exp0 where "exp0 = drop_bit 20 (i32_0 n) AND (0x7ff :: u32)"
  define man0 where "man0 = n AND (0x000fffffffffffff :: u64)"
  define X where "X =
     (if man0 \<noteq> 0 \<and> 0x3ff < exp0 \<and> exp0 < 0x3ff + 52 then
               let man = push_bit (unat (exp0 - 0x3ff)) man0 AND 0x001fffffffffffff;
                   exp = (0x3ff :: u32)
               in if man \<noteq> 0 then
                    let d = int (clzll man) - 11
                    in if d \<noteq> 0
                       then (exp - word_of_int d,
                             push_bit (nat d) man AND 0x000fffffffffffff)
                       else (exp, man)
                  else (0, man)
             else if man0 = 0 \<and> 0x3ff < exp0 then (0, man0)
             else (exp0, man0))"
  obtain e m where em: "X = (e, m)" by (cases X)
  have T: "TrimDoubleRange n =
      (case X of (exp1, man1) \<Rightarrow>
         set_i32_0 (man1 AND NOT (0x0010000000000000 :: u64))
           (i32_0 (man1 AND NOT (0x0010000000000000 :: u64)) OR push_bit 20 exp1))"
    unfolding X_def exp0_def man0_def TrimDoubleRange_def by (simp only: Let_def)
  have "\<not> bit m 63 \<and> \<not> bit e 11"
  proof (rule fields_ok [OF em [unfolded X_def]])
    show "\<not> bit man0 63" unfolding man0_def by (rule man_bit63_a)
    show "\<not> bit exp0 11" unfolding exp0_def by (rule and_7ff_bit11)
  qed
  then have "\<not> bit (set_i32_0 (m AND NOT (0x0010000000000000 :: u64))
          (i32_0 (m AND NOT (0x0010000000000000 :: u64)) OR push_bit 20 e)) 63"
    by (intro sign_of_out) auto
  then show ?thesis unfolding double_sign_def T em by simp
qed

lemma recompose_gen:
  fixes n m52 b52 m32 :: u64 and m11 :: u32
  assumes m52: "\<And>k. bit m52 k \<longleftrightarrow> k < 52"
    and b52: "\<And>k. bit b52 k \<longleftrightarrow> k = 52"
    and m32: "\<And>k. bit m32 k \<longleftrightarrow> k < 32"
    and m11: "\<And>k. bit m11 k \<longleftrightarrow> k < 11"
    and s: "\<not> bit n 63"
  shows "(((n AND m52) AND NOT b52) AND m32) OR
           push_bit 32 (ucast ((ucast (drop_bit 32 ((n AND m52) AND NOT b52)) :: u32) OR
                          push_bit 20 (drop_bit 20 (ucast (drop_bit 32 n) :: u32) AND m11))) = n"
proof (rule bit_word_eqI)
  fix k assume "k < LENGTH(64)"
  then have k: "k < 64" by simp
  consider "k < 32" | "32 \<le> k" "k < 52" | "52 \<le> k" "k < 63" | "k = 63"
    using k by arith
  then show "bit ((((n AND m52) AND NOT b52) AND m32) OR
           push_bit 32 (ucast ((ucast (drop_bit 32 ((n AND m52) AND NOT b52)) :: u32) OR
                          push_bit 20 (drop_bit 20 (ucast (drop_bit 32 n) :: u32) AND m11)))) k
              = bit n k"
    using s
    by cases (auto simp add: bit_simps m52 b52 m32 m11)
qed

lemma numeral_bits:
  "bit (0x000fffffffffffff :: u64) k \<longleftrightarrow> k < 52"
  "bit (0x0010000000000000 :: u64) k \<longleftrightarrow> k = 52"
  "bit (0x00000000ffffffff :: u64) k \<longleftrightarrow> k < 32"
  "bit (0x7ff :: u32) k \<longleftrightarrow> k < 11"
proof -
  have a: "(0x000fffffffffffff :: u64) = mask 52"
    "(0x00000000ffffffff :: u64) = mask 32" "(0x7ff :: u32) = mask 11"
    by (simp_all add: mask_eq_exp_minus_1)
  have b: "(0x0010000000000000 :: u64) = 2 ^ 52" by simp
  show "bit (0x000fffffffffffff :: u64) k \<longleftrightarrow> k < 52"
    "bit (0x00000000ffffffff :: u64) k \<longleftrightarrow> k < 32"
    "bit (0x7ff :: u32) k \<longleftrightarrow> k < 11"
    unfolding a by (auto simp add: bit_simps)
  show "bit (0x0010000000000000 :: u64) k \<longleftrightarrow> k = 52"
    apply (subst b)
    apply (subst bit_exp_iff)
    apply (auto simp add: possible_bit_word)
    done
qed

lemma TrimDoubleRange_in_range:
  assumes s: "\<not> double_sign n" and e: "drop_bit 20 (i32_0 n) AND (0x7ff :: u32) \<le> 0x3ff"
  shows "TrimDoubleRange n = n"
proof -
  let ?exp0 = "drop_bit 20 (i32_0 n) AND (0x7ff :: u32)"
  let ?man0 = "n AND (0x000fffffffffffff :: u64)"
  have ne: "\<not> 0x3ff < ?exp0" using e by simp
  have "TrimDoubleRange n =
     set_i32_0 (?man0 AND NOT (0x0010000000000000 :: u64))
       (i32_0 (?man0 AND NOT (0x0010000000000000 :: u64)) OR push_bit 20 ?exp0)"
    unfolding TrimDoubleRange_def using ne by (simp only: Let_def) simp
  also have "\<dots> = n"
    unfolding set_i32_0_def i32_0_def
    using s [unfolded double_sign_def]
    by (intro recompose_gen numeral_bits)
  finally show ?thesis .
qed


lemma exp_field:
  "unat (drop_bit 20 (i32_0 n) AND (0x7ff :: u32)) = double_exp n"
proof -
  have a: "(0x7ff :: u32) = mask 11" "(0x7ff :: u64) = mask 11"
    by (simp_all add: mask_eq_exp_minus_1)
  have "(ucast (drop_bit 20 (i32_0 n) AND (0x7ff :: u32)) :: u64) = drop_bit 52 n AND 0x7ff"
    unfolding a i32_0_def
    by (rule bit_word_eqI) (auto simp add: bit_simps)
  then have "unat (ucast (drop_bit 20 (i32_0 n) AND (0x7ff :: u32)) :: u64) = double_exp n"
    by (simp add: double_exp_def)
  moreover have "unat (ucast x :: u64) = unat x" for x :: u32
  proof -
    have "unat x < 2 ^ 32" using unsigned_less [of x, where 'a = nat] by simp
    then have "unat x < 2 ^ 64" by simp
    then show ?thesis by (simp add: unsigned_ucast_eq take_bit_nat_eq_self)
  qed
  ultimately show ?thesis by simp
qed

lemma TrimDoubleRange_idempotent_in_range:
  assumes "\<not> double_sign n" and "double_exp n \<le> 0x3ff"
  shows "TrimDoubleRange n = n"
proof -
  have "unat (drop_bit 20 (i32_0 n) AND (0x7ff :: u32)) \<le> unat (0x3ff :: u32)"
    using assms(2) by (simp add: exp_field)
  then have "drop_bit 20 (i32_0 n) AND (0x7ff :: u32) \<le> 0x3ff"
    by (simp only: word_le_nat_alt)
  with assms(1) show ?thesis by (rule TrimDoubleRange_in_range)
qed

text \<open>
  Claim C3. The claim says that every finite double is trimmed into \<open>[0, 2)\<close>. The source
  only reduces exponents below \<open>0x3ff + 52\<close>; a finite double with a larger exponent and a
  non-zero mantissa is returned with its magnitude unchanged. At the pattern
  \<open>0x4330000000000001\<close>, which is the finite double \<open>2^52 + 1\<close>, the function returns its
  argument, and that value is not below 2. (The second half of the claim holds, by the
  lemma above: a pattern with a clear sign and an exponent field of at most \<open>0x3ff\<close>, that
  is a double in \<open>[0, 2)\<close>, is returned as it is.)
\<close>

theorem TrimDoubleRange_large_exponent:
  "double_finite 0x4330000000000001 \<and>
   TrimDoubleRange 0x4330000000000001 = 0x4330000000000001 \<and>
   double_value (TrimDoubleRange 0x4330000000000001) = 2 ^ 52 + 1 \<and>
   \<not> double_value (TrimDoubleRange 0x4330000000000001) < 2"
  by (simp add: TrimDoubleRange_def i32_0_def set_i32_0_def double_finite_def
       double_value_def double_sign_def double_exp_def double_man_def)

section \<open>Properties of the line-5 emitter\<close>

lemmas ARM_CC_defs =
  ARM_CC_EQ_def ARM_CC_NE_def ARM_CC_CS_def ARM_CC_CC_def ARM_CC_MI_def ARM_CC_PL_def
  ARM_CC_VS_def ARM_CC_VC_def ARM_CC_HI_def ARM_CC_LS_def ARM_CC_GE_def ARM_CC_LT_def
  ARM_CC_GT_def ARM_CC_LE_def ARM_CC_AL_def

lemma emit_sel [simp]:
  "stream (emit i e) = stream e @ [Insn i]"
  "ra_log (emit i e) = ra_log e"
  "m68k_ptr (emit i e) = m68k_ptr e"
  "ptr (emit i e) = Suc (ptr e)"
  by (simp_all add: emit_def ptr_def)

lemma emit_item_sel [simp]:
  "stream (emit_item x e) = stream e @ [x]"
  "ra_log (emit_item x e) = ra_log e"
  "m68k_ptr (emit_item x e) = m68k_ptr e"
  "ptr (emit_item x e) = Suc (ptr e)"
  by (simp_all add: emit_item_def ptr_def)

lemma emit_items_sel [simp]:
  "stream (emit_items xs e) = stream e @ xs"
  "ra_log (emit_items xs e) = ra_log e"
  "m68k_ptr (emit_items xs e) = m68k_ptr e"
  "ptr (emit_items xs e) = ptr e + length xs"
  by (simp_all add: emit_items_def ptr_def)

lemma RA_void_sel [simp]:
  "stream (RA_void c e) = stream e"
  "ra_log (RA_void c e) = ra_log e @ [(ptr e, c)]"
  "m68k_ptr (RA_void c e) = m68k_ptr e"
  "ptr (RA_void c e) = ptr e"
  by (simp_all add: RA_void_def ptr_def)

lemma RA_eq: "RA env c e = (RA_answer env (length (ra_log e)) c, RA_void c e)"
  by (simp add: RA_def RA_void_def)

lemma patch_sel [simp]:
  "ra_log (patch p n e) = ra_log e"
  "m68k_ptr (patch p n e) = m68k_ptr e"
  "ptr (patch p n e) = ptr e"
  "length (stream (patch p n e)) = length (stream e)"
  by (simp_all add: patch_def ptr_def)

lemma m68k_ptr_upd_sel [simp]:
  "ptr (e\<lparr>m68k_ptr := k\<rparr>) = ptr e"
  by (simp add: ptr_def)

lemma DBcc_counter_log:
  "ra_log (DBcc_counter env opcode cr b1 e0) =
     ra_log e0 @
     [(ptr e0, RA_AllocARMRegister),
      (ptr e0 + 5, RA_SetDirtyM68kRegister (ucast (opcode AND 7))),
      (ptr e0 + 9, RA_FreeARMRegister (RA_answer env (length (ra_log e0)) RA_AllocARMRegister)),
      (ptr (DBcc_counter env opcode cr b1 e0),
         RA_FreeARMRegister (RA_answer env (length (ra_log e0)) RA_AllocARMRegister))]"
  by (cases b1) (simp_all add: DBcc_counter_def Let_def RA_eq)

lemma DBcc_counter_ptr:
  "ptr (DBcc_counter env opcode cr b1 e0) = ptr e0 + (if b1 = None then 12 else 13)"
  by (cases b1) (simp_all add: DBcc_counter_def Let_def RA_eq)

lemma patch_stream_nth:
  "i \<noteq> p \<Longrightarrow> stream (patch p n e) ! i = stream e ! i"
  by (simp add: patch_def)

lemma DBcc_counter_add_reg:
  assumes "\<forall>b. b1 = Some b \<longrightarrow> b < ptr e0"
  shows "stream (DBcc_counter env opcode cr b1 e0) ! (ptr e0 + 8) =
     Insn (add_reg (REG_PC env) (REG_PC env)
             (RA_answer env (length (ra_log e0)) RA_AllocARMRegister) 0)"
proof (cases b1)
  case None
  then show ?thesis
    by (simp add: DBcc_counter_def Let_def RA_eq nth_append ptr_def)
next
  case (Some b)
  then have "b < ptr e0" using assms by simp
  then show ?thesis using Some
    by (simp add: DBcc_counter_def Let_def RA_eq nth_append ptr_def patch_stream_nth)
qed

lemma DBcc_counter_last:
  "stream (DBcc_counter env opcode cr b1 e0) ! (ptr (DBcc_counter env opcode cr b1 e0) - 1) =
     Word32 0xfffffffe"
  by (cases b1) (simp_all add: DBcc_counter_def Let_def RA_eq nth_append ptr_def)

lemma EMIT_LoadARMCC_ptr: "ptr (EMIT_LoadARMCC env cc e) = ptr e + 7"
  by (simp add: EMIT_LoadARMCC_def Let_def RA_eq)

lemma EMIT_line5_DBcc:
  assumes "m68k (m68k_ptr e0) = opcode"
    and "opcode AND 0xf0c0 = 0x50c0" and "opcode AND 0x38 = 0x08"
    and "(ucast (drop_bit 8 opcode AND 0x0f) :: u8) \<noteq> M_CC_T"
  shows "\<exists>e1 cr b1. EMIT_line5 env m68k e0 = DBcc_counter env opcode cr b1 e1
           \<and> (\<forall>b. b1 = Some b \<longrightarrow> b < ptr e1)"
proof (cases "(ucast (drop_bit 8 opcode AND 0x0f) :: u8) = M_CC_F")
  case True
  with assms show ?thesis
    apply (simp add: EMIT_line5_def Let_def RA_eq)
    apply (intro exI conjI)
     apply (rule refl)
    apply simp
    done
next
  case False
  with assms show ?thesis
    apply (simp add: EMIT_line5_def Let_def RA_eq)
    apply (intro exI conjI)
     apply (rule refl)
    apply simp
    done
qed

text \<open>
  Claim C9. On the general path of the DBcc emitter (any condition other than T) the scratch
  register allocated for the counter arithmetic is passed to \<^verbatim>\<open>RA_FreeARMRegister\<close> twice:
  the allocator calls of the emission end with the allocation of that register, the
  dirty mark of the counter, a first free at the position right behind the final
  \<^verbatim>\<open>add_reg\<close> on guest PC, and a second free at the end of the stream, behind the patch
  records that close with \<open>0xfffffffe\<close>.
\<close>

theorem DBcc_scratch_freed_twice:
  assumes "m68k (m68k_ptr e0) = opcode"
    and "opcode AND 0xf0c0 = 0x50c0" and "opcode AND 0x38 = 0x08"
    and "(ucast (drop_bit 8 opcode AND 0x0f) :: u8) \<noteq> M_CC_T"
  shows "\<exists>pre p0 g reg.
           ra_log (EMIT_line5 env m68k e0) =
             pre @ [(p0, RA_AllocARMRegister), (p0 + 5, RA_SetDirtyM68kRegister g),
                    (p0 + 9, RA_FreeARMRegister reg),
                    (ptr (EMIT_line5 env m68k e0), RA_FreeARMRegister reg)] \<and>
           reg = RA_answer env (length pre) RA_AllocARMRegister \<and>
           stream (EMIT_line5 env m68k e0) ! (p0 + 8) =
             Insn (add_reg (REG_PC env) (REG_PC env) reg 0) \<and>
           p0 + 9 < ptr (EMIT_line5 env m68k e0) \<and>
           stream (EMIT_line5 env m68k e0) ! (ptr (EMIT_line5 env m68k e0) - 1) =
             Word32 0xfffffffe"
proof -
  obtain e1 cr b1 where e: "EMIT_line5 env m68k e0 = DBcc_counter env opcode cr b1 e1"
    and b: "\<forall>b. b1 = Some b \<longrightarrow> b < ptr e1"
    using EMIT_line5_DBcc [of m68k e0 opcode env] assms by blast
  show ?thesis
    unfolding e
    apply (rule exI [of _ "ra_log e1"])
    apply (rule exI [of _ "ptr e1"])
    apply (rule exI [of _ "ucast (opcode AND 7)"])
    apply (rule exI [of _ "RA_answer env (length (ra_log e1)) RA_AllocARMRegister"])
    apply (intro conjI)
        apply (rule DBcc_counter_log)
       apply (rule refl)
      apply (rule DBcc_counter_add_reg [OF b])
     apply (simp add: DBcc_counter_ptr)
    apply (rule DBcc_counter_last)
    done
qed

theorem DBcc_scratch_freed_twice_witness:
  "guest_code 0x51c8 (m68k_ptr emitter0) = 0x51c8 \<and>
   (0x51c8 :: u16) AND 0xf0c0 = 0x50c0 \<and> (0x51c8 :: u16) AND 0x38 = 0x08 \<and>
   (ucast (drop_bit 8 (0x51c8 :: u16) AND 0x0f) :: u8) \<noteq> M_CC_T \<and>
   (\<exists>pre p0 g reg.
       ra_log (EMIT_line5 env_example (guest_code 0x51c8) emitter0) =
         pre @ [(p0, RA_AllocARMRegister), (p0 + 5, RA_SetDirtyM68kRegister g),
                (p0 + 9, RA_FreeARMRegister reg),
                (ptr (EMIT_line5 env_example (guest_code 0x51c8) emitter0),
                 RA_FreeARMRegister reg)] \<and>
       reg = RA_answer env_example (length pre) RA_AllocARMRegister \<and>
       stream (EMIT_line5 env_example (guest_code 0x51c8) emitter0) ! (p0 + 8) =
         Insn (add_reg (REG_PC env_example) (REG_PC env_example) reg 0) \<and>
       p0 + 9 < ptr (EMIT_line5 env_example (guest_code 0x51c8) emitter0) \<and>
       stream (EMIT_line5 env_example (guest_code 0x51c8) emitter0) !
         (ptr (EMIT_line5 env_example (guest_code 0x51c8) emitter0) - 1) = Word32 0xfffffffe)"
proof -
  have h1: "guest_code 0x51c8 (m68k_ptr emitter0) = 0x51c8"
    by (simp add: guest_code_def emitter0_def)
  have h2: "(0x51c8 :: u16) AND 0xf0c0 = 0x50c0" by simp
  have h3: "(0x51c8 :: u16) AND 0x38 = 0x08" by simp
  have h4: "(ucast (drop_bit 8 (0x51c8 :: u16) AND 0x0f) :: u8) \<noteq> M_CC_T"
    by (simp add: M_CC_T_def)
  show ?thesis
    using DBcc_scratch_freed_twice
            [of "guest_code 0x51c8" emitter0 "0x51c8" env_example, OF h1 h2 h3 h4] h1 h2 h3 h4
    by blast
qed

lemma patch_stream:
  "stream (patch p n e) =
     (if p < length (stream e) then (stream e)[p := add_to_offset n (stream e ! p)]
      else stream e)"
  by (simp add: patch_def)

lemma emitter0_sel [simp]:
  "stream emitter0 = []" "ptr emitter0 = 0" "m68k_ptr emitter0 = 0" "ra_log emitter0 = []"
  by (simp_all add: emitter0_def ptr_def)

lemma stream_m68k_ptr_upd [simp]: "stream (e\<lparr>m68k_ptr := k\<rparr>) = stream e"
  by simp

lemma env_example_sel:
  "REG_PC env_example = 10" "REG_SR env_example = 11"
  "RA_answer env_example n (RA_MapM68kRegister g) = 4 + g"
  "RA_answer env_example n RA_AllocARMRegister = 0"
  by (simp_all add: env_example_def)

lemma DBF_stream_example:
  "stream (EMIT_line5 env_example (guest_code 0x51c8) emitter0) =
     [Insn (mov_reg_shift 0 4 16), Insn (sub_immed 0 0 0x801), Insn (cmn_immed 0 0x801),
      Insn (lsr_immed 0 0 16), Insn (bfi 4 0 0 16), Insn (ldrsh_offset 10 0 0),
      Insn (add_cc_immed 0 10 10 2), Insn (b_cc 0 0), Insn (add_reg 10 10 0 0),
      SlotAddr 7, Word32 1, Word32 0xfffffffe]"
  by (simp add: EMIT_line5_def DBcc_counter_def env_example_sel guest_code_def RA_eq
       Let_def M_CC_T_def M_CC_F_def ARM_CC_defs)

lemma DBEQ_stream_example:
  "stream (EMIT_line5 env_example (guest_code 0x57c8) emitter0) =
     [Insn (mov_reg_shift 0 11 28), Insn (bic_immed 0 0 0x203), Insn (tst_immed 0 2),
      Insn (orr_cc_immed 1 0 0 0x201), Insn (tst_immed 0 1), Insn (orr_cc_immed 1 0 0 0x202),
      Insn (msr 0 8), Insn (add_cc_immed 1 10 10 2), Insn (add_cc_immed 0 10 10 4),
      Insn (b_cc 0 8),
      Insn (mov_reg_shift 0 4 16), Insn (sub_immed 0 0 0x801), Insn (cmn_immed 0 0x801),
      Insn (lsr_immed 0 0 16), Insn (bfi 4 0 0 16), Insn (ldrsh_offset 10 0 0),
      Insn (add_cc_immed 0 10 10 2), Insn (b_cc 0 0), Insn (add_reg 10 10 0 0),
      SlotAddr 9, SlotAddr 17, Word32 2, Word32 0xfffffffe]"
  by (simp add: EMIT_line5_def DBcc_counter_def EMIT_LoadARMCC_def env_example_sel
       guest_code_def M68K_ccTo_ARM_def patch_stream RA_eq
       Let_def M_CC_T_def M_CC_F_def ARM_CC_defs)

lemma run_next:
  "i < length prog \<Longrightarrow> step prog i s = Next j s' \<Longrightarrow> i < j \<Longrightarrow> run prog i s = run prog j s'"
  by (subst run.simps) simp

lemma run_stop:
  "i < length prog \<Longrightarrow> step prog i s = Stop s' \<Longrightarrow> run prog i s = Some s'"
  by (subst run.simps) simp


lemmas sem_defs =
  step_def exec_insn_def set_reg_def cond_holds_def arm_imm12_def load16_def ARM_CC_defs
  Let_def mask_eq_exp_minus_1

section \<open>Properties of the line-F emitter\<close>

text \<open>
  Claim C6. The claim says that a recognised opcode pair leaves no undefined-instruction
  word in the stream. FABS.X is recognised by an \<^verbatim>\<open>if\<close> of its own, and the chain that ends
  in the \<^verbatim>\<open>udf\<close> word begins behind it: for the pair \<open>(0xf200, 0x0018)\<close> (FABS.X FP0,FP0) the
  emitter writes the \<^verbatim>\<open>fabsd\<close> instruction, advances guest PC and then appends
  \<^verbatim>\<open>udf(0xf200)\<close>.
\<close>

theorem lineF_FABS_emits_udf:
  "is_FABS 0xf200 0x0018 \<and>
   stream (EMIT_lineF env_example (guest_pair 0xf200 0x0018) emitter0) =
     [Insn (fabsd 0 0), Insn (add_immed 10 10 4), Insn (udf 0xf200)] \<and>
   udf_count (EMIT_lineF env_example (guest_pair 0xf200 0x0018) emitter0) = 1"
  by (simp add: is_FABS_def EMIT_lineF_def EMIT_FABS_def EMIT_AdvancePC_def guest_pair_def
        emitter0_def env_example_def udf_count_def is_udf_def ext_count_def Let_def)

section \<open>Properties of the context transfer\<close>

lemma w_of_ldr_w [simp]: "w_of (ldr_w v) = v"
  unfolding w_of_def ldr_w_def
  by (rule bit_word_eqI) (auto simp add: bit_simps)

lemma ucast_ucast_16_64 [simp]: "(ucast (ucast (v :: u16) :: u64) :: u16) = v"
  by (rule bit_word_eqI) (auto simp add: bit_simps)

lemma and_bit_test: "(sr AND (2 ^ n) \<noteq> 0) = bit (sr :: 'a :: len word) n"
  by (simp add: and_exp_eq_0_iff_not_bit)
lemma SR_S_test: "(sr AND SR_S \<noteq> 0) = bit (sr :: u16) 13"
  using and_bit_test [of sr 13] by (simp add: SR_S_def)
lemma SR_M_test: "(sr AND SR_M \<noteq> 0) = bit (sr :: u16) 12"
  using and_bit_test [of sr 12] by (simp add: SR_M_def)


lemma Save_regs [simp]:
  "xD (M68K_SaveContext m) = xD m"
  "xA (M68K_SaveContext m) = xA m"
  "xPC (M68K_SaveContext m) = xPC m"
  "dFP (M68K_SaveContext m) = dFP m"
  "TPIDR_EL0 (M68K_SaveContext m) = TPIDR_EL0 m"
  "TPIDR_EL1 (M68K_SaveContext m) = TPIDR_EL1 m"
  "x12 (M68K_SaveContext m) = x12 m"
  "gmem (M68K_SaveContext m) = gmem m"
  "heap (M68K_SaveContext m) = heap m"
  "trace (M68K_SaveContext m) = trace m"
  by (simp_all add: M68K_SaveContext_def Let_def cong: if_cong)

lemma Save_ctx:
  "D (ctx (M68K_SaveContext m)) = (\<lambda>i. if i < 8 then w_of (xD m i) else D (ctx m) i)"
  "A (ctx (M68K_SaveContext m)) = (\<lambda>i. if i < 8 then w_of (xA m i) else A (ctx m) i)"
  "PC (ctx (M68K_SaveContext m)) = w_of (xPC m)"
  "FP (ctx (M68K_SaveContext m)) = (\<lambda>i. if i < 8 then dFP m i else FP (ctx m) i)"
  "SR (ctx (M68K_SaveContext m)) = ucast (TPIDR_EL0 m)"
  by (simp_all add: M68K_SaveContext_def Let_def cong: if_cong)


lemma Save_banks:
  "USP (ctx (M68K_SaveContext m)) =
     (if bit (TPIDR_EL0 m) 13 then USP (ctx m) else w_of (xA m 7))"
  "ISP (ctx (M68K_SaveContext m)) =
     (if bit (TPIDR_EL0 m) 13 \<and> \<not> bit (TPIDR_EL0 m) 12 then w_of (xA m 7) else ISP (ctx m))"
  "MSP (ctx (M68K_SaveContext m)) =
     (if bit (TPIDR_EL0 m) 13 \<and> bit (TPIDR_EL0 m) 12 then w_of (xA m 7) else MSP (ctx m))"
  by (simp_all add: M68K_SaveContext_def Let_def SR_S_test SR_M_test bit_simps cong: if_cong)

lemma Save_rest [simp]:
  "PINT (ctx (M68K_SaveContext m)) = PINT (ctx m)"
  "CACR (ctx (M68K_SaveContext m)) = CACR (ctx m)"
  "VBR (ctx (M68K_SaveContext m)) = VBR (ctx m)"
  "IPL0 (ctx (M68K_SaveContext m)) = IPL0 (ctx m)"
  by (simp_all add: M68K_SaveContext_def Let_def cong: if_cong)

lemma Load_regs:
  "xD (M68K_LoadContext m) = (\<lambda>i. if i < 8 then ldr_w (D (ctx m) i) else xD m i)"
  "xA (M68K_LoadContext m) =
     (\<lambda>i. if i = 7 then ldr_w (if bit (SR (ctx m)) 13
                                then (if bit (SR (ctx m)) 12 then MSP (ctx m) else ISP (ctx m))
                                else USP (ctx m))
          else if i < 8 then ldr_w (A (ctx m) i) else xA m i)"
  "xPC (M68K_LoadContext m) = ldr_w (PC (ctx m))"
  "dFP (M68K_LoadContext m) = (\<lambda>i. if i < 8 then FP (ctx m) i else dFP m i)"
  "TPIDR_EL0 (M68K_LoadContext m) = ucast (SR (ctx m))"
  by (simp_all add: M68K_LoadContext_def Let_def SR_S_test SR_M_test fun_eq_iff cong: if_cong)

lemma Load_rest [simp]:
  "ctx (M68K_LoadContext m) = ctx m"
  "TPIDR_EL1 (M68K_LoadContext m) = TPIDR_EL1 m"
  "x12 (M68K_LoadContext m) = x12 m"
  "gmem (M68K_LoadContext m) = gmem m"
  "heap (M68K_LoadContext m) = heap m"
  "trace (M68K_LoadContext m) = trace m"
  by (simp_all add: M68K_LoadContext_def Let_def cong: if_cong)

lemma bit_sr_of_tpidr: "n < 16 \<Longrightarrow> bit (ucast (x :: u64) :: u16) n = bit x n"
  by (simp add: bit_simps)

text \<open>
  Claim C5. \<^verbatim>\<open>M68K_SaveContext\<close> followed at once by \<^verbatim>\<open>M68K_LoadContext\<close> on the same
  context leaves the guest-visible state unchanged: the eight data registers, the eight
  address registers (A7 is stored to and reloaded from the bank that SR selects), PC, SR
  and the eight FPU registers are bit-equal before and after.
\<close>

theorem SaveContext_LoadContext_roundtrip:
  "guest_of (M68K_LoadContext (M68K_SaveContext m)) = guest_of m"
  by (simp add: guest_of_def Load_regs Save_ctx Save_banks bit_sr_of_tpidr fun_eq_iff
        cong: if_cong)

text \<open>
  Claim C7. For every value of SR both routines use the stack bank that the bits S and M
  select: \<^verbatim>\<open>M68K_LoadContext\<close> makes SR of the context the current SR and leaves in A7 the
  value of MSP when S and M are set, of ISP when S is set and M is clear, of USP when S is
  clear; \<^verbatim>\<open>M68K_SaveContext\<close> stores the current SR and writes A7 to the bank that this SR
  selects, and to no other bank.
\<close>

theorem context_A7_bank_coherent:
  "gSR (guest_of (M68K_LoadContext m)) = SR (ctx m) \<and>
   w_of (xA (M68K_LoadContext m) 7) = bank_value (active_bank (SR (ctx m))) (ctx m) \<and>
   SR (ctx (M68K_SaveContext m)) = gSR (guest_of m) \<and>
   (USP (ctx (M68K_SaveContext m)), ISP (ctx (M68K_SaveContext m)),
    MSP (ctx (M68K_SaveContext m))) =
     (case active_bank (gSR (guest_of m)) of
        Bank_USP \<Rightarrow> (w_of (xA m 7), ISP (ctx m), MSP (ctx m))
      | Bank_ISP \<Rightarrow> (USP (ctx m), w_of (xA m 7), MSP (ctx m))
      | Bank_MSP \<Rightarrow> (USP (ctx m), ISP (ctx m), w_of (xA m 7)))"
proof -
  have 1: "gSR (guest_of (M68K_LoadContext m)) = SR (ctx m)"
    by (simp add: Load_regs guest_of_def)
  have 2: "w_of (xA (M68K_LoadContext m) 7) = bank_value (active_bank (SR (ctx m))) (ctx m)"
    by (simp add: Load_regs active_bank_def bank_value_def)
  have 3: "SR (ctx (M68K_SaveContext m)) = gSR (guest_of m)"
    by (simp add: Save_ctx guest_of_def)
  have 4: "(USP (ctx (M68K_SaveContext m)), ISP (ctx (M68K_SaveContext m)),
            MSP (ctx (M68K_SaveContext m))) =
     (case active_bank (gSR (guest_of m)) of
        Bank_USP \<Rightarrow> (w_of (xA m 7), ISP (ctx m), MSP (ctx m))
      | Bank_ISP \<Rightarrow> (USP (ctx m), w_of (xA m 7), MSP (ctx m))
      | Bank_MSP \<Rightarrow> (USP (ctx m), ISP (ctx m), w_of (xA m 7)))"
    by (simp add: Save_banks guest_of_def active_bank_def bit_sr_of_tpidr)
  from 1 2 3 4 show ?thesis by simp
qed

section \<open>Properties of the execution loop\<close>

lemma ex_sel:
  "PISTORM env_plain = False" "PISTORM env_pistorm = True"
  "run_fragment env_pistorm = (\<lambda>entry m. m)"
  "run_fragment env_plain = (\<lambda>entry m. m)"
  by (simp_all add: env_plain_def env_pistorm_def)

text \<open>A pass leaves the loop exactly when it starts at the sentinel in a build without \<^verbatim>\<open>PISTORM\<close>.\<close>

lemma iteration_left:
  "iteration env m = Some (m', left) \<Longrightarrow>
     left = (\<not> PISTORM env \<and> w_of (xPC m) = 0) \<and> (left \<longrightarrow> m' = M68K_SaveContext m)"
  by (auto simp add: iteration_def dispatch99_def Let_def split: if_splits)

text \<open>Every other pass ends in \<^verbatim>\<open>blr x12\<close>: it enters a fragment.\<close>

lemma dispatch_cached_enters:
  "dispatch_cached env m = Some m' \<Longrightarrow> \<exists>m''. m' = enter env m''"
  by (auto simp add: dispatch_cached_def Let_def split: option.splits prod.splits if_splits)

lemma dispatch_uncached_enters:
  "dispatch_uncached env m = Some m' \<Longrightarrow> \<exists>m''. m' = enter env m''"
  by (auto simp add: dispatch_uncached_def Let_def split: option.splits prod.splits if_splits)

lemma dispatch99_enters:
  "dispatch99 env m = Some (m', left) \<Longrightarrow> \<exists>m''. m' = enter env m''"
  using dispatch_cached_enters dispatch_uncached_enters
  by (auto simp add: dispatch99_def split: if_splits)

lemma iteration_enters:
  "iteration env m = Some (m', False) \<Longrightarrow> \<exists>m''. m' = enter env m''"
  using dispatch99_enters
  by (simp add: iteration_def Let_def split: if_splits)

text \<open>
  When the loop returns, it returns from a pass that started at the sentinel: by induction
  on the passes of the loop.
\<close>

lemma dispatch_loop_returns:
  assumes ret: "dispatch_loop env m = Some mf"
  shows "\<not> PISTORM env \<and> (\<exists>m0. w_of (xPC m0) = 0 \<and> mf = M68K_SaveContext m0)"
proof (rule dispatch_loop.raw_induct
    [where P = "\<lambda>env m mf. \<not> PISTORM env \<and> (\<exists>m0. w_of (xPC m0) = 0 \<and> mf = M68K_SaveContext m0)",
      OF _ ret])
  fix f env m mf
  assume IH: "\<And>env m mf. f env m = Some mf \<Longrightarrow>
      \<not> PISTORM env \<and> (\<exists>m0. w_of (xPC m0) = 0 \<and> mf = M68K_SaveContext m0)"
    and b: "Option.bind (iteration env m) (\<lambda>(m', left). if left then Some m' else f env m') = Some mf"
  from b obtain m' left where it: "iteration env m = Some (m', left)"
    and r: "(if left then Some m' else f env m') = Some mf"
    by (auto simp add: bind_eq_Some_conv)
  show "\<not> PISTORM env \<and> (\<exists>m0. w_of (xPC m0) = 0 \<and> mf = M68K_SaveContext m0)"
  proof (cases left)
    case True
    then show ?thesis using iteration_left [OF it] r by auto
  next
    case False
    then show ?thesis using r IH by simp
  qed
qed

lemma iteration_example:
  "iteration env_plain (machine_example 0x3000 0x2300 0) =
     Some (log_event (EvEnter 0x4000) (machine_example 0x3000 0x2300 0), False)"
  by (simp add: iteration_def dispatch99_def enter_def ex_sel machine_example_def w_of_def
        ctx_example_def CACRB_IE_def log_event_def)

text \<open>
  Claim C8, amended. The test for the sentinel stands under \<^verbatim>\<open>#ifndef PISTORM\<close>. In a build
  without \<^verbatim>\<open>PISTORM\<close>, whenever the top of the loop is reached with guest PC zero, the
  dispatcher leaves the loop: it saves the guest context and returns, and looks up, builds
  or enters no fragment (the log of the dispatcher is unchanged). The guest runs until
  that sentinel: a pass of the loop leaves the loop only when it starts with guest PC zero
  in a build without \<^verbatim>\<open>PISTORM\<close>; every other pass that comes to its end enters a fragment
  and the loop goes on from the machine the fragment leaves; and whenever the loop
  returns, the build is one without \<^verbatim>\<open>PISTORM\<close>, guest PC is zero, and the machine is the
  one saved at a pass that started with guest PC zero.
\<close>

theorem sentinel_exit:
  "(\<not> PISTORM env \<and> w_of (xPC m) = 0 \<longrightarrow>
      dispatch_loop env m = Some (M68K_SaveContext m) \<and>
      trace (M68K_SaveContext m) = trace m) \<and>
   (iteration env m1 = Some (m1', left) \<longrightarrow>
      left = (\<not> PISTORM env \<and> w_of (xPC m1) = 0)) \<and>
   (iteration env m2 = Some (m2', False) \<longrightarrow>
      (\<exists>m''. m2' = enter env m'') \<and> dispatch_loop env m2 = dispatch_loop env m2') \<and>
   (dispatch_loop env m3 = Some mf \<longrightarrow>
      \<not> PISTORM env \<and> w_of (xPC mf) = 0 \<and>
      (\<exists>m0. w_of (xPC m0) = 0 \<and> mf = M68K_SaveContext m0))"
proof -
  have a: "dispatch_loop env m = Some (M68K_SaveContext m)"
    if "\<not> PISTORM env" "w_of (xPC m) = 0"
  proof -
    have "iteration env m = Some (M68K_SaveContext m, True)"
      using that by (simp add: iteration_def)
    then show ?thesis by (subst dispatch_loop.simps) simp
  qed
  have b: "left = (\<not> PISTORM env \<and> w_of (xPC m1) = 0)"
    if "iteration env m1 = Some (m1', left)"
    using iteration_left [OF that] by simp
  have c: "dispatch_loop env m2 = dispatch_loop env m2'"
    if "iteration env m2 = Some (m2', False)"
    using that by (subst dispatch_loop.simps) simp
  have d: "\<not> PISTORM env \<and> w_of (xPC mf) = 0 \<and>
      (\<exists>m0. w_of (xPC m0) = 0 \<and> mf = M68K_SaveContext m0)"
    if "dispatch_loop env m3 = Some mf"
    using dispatch_loop_returns [OF that] by auto
  show ?thesis using a b c d iteration_enters [of env m2 m2'] by simp
qed

theorem sentinel_exit_witness:
  "\<not> PISTORM env_plain \<and> w_of (xPC (machine_example 0 0x2300 0)) = 0 \<and>
   dispatch_loop env_plain (machine_example 0 0x2300 0) =
     Some (M68K_SaveContext (machine_example 0 0x2300 0)) \<and>
   trace (M68K_SaveContext (machine_example 0 0x2300 0)) = trace (machine_example 0 0x2300 0) \<and>
   iteration env_plain (machine_example 0 0x2300 0) =
     Some (M68K_SaveContext (machine_example 0 0x2300 0), True) \<and>
   w_of (xPC (machine_example 0x3000 0x2300 0)) \<noteq> 0 \<and>
   iteration env_plain (machine_example 0x3000 0x2300 0) =
     Some (log_event (EvEnter 0x4000) (machine_example 0x3000 0x2300 0), False) \<and>
   dispatch_loop env_plain (machine_example 0x3000 0x2300 0) =
     dispatch_loop env_plain (log_event (EvEnter 0x4000) (machine_example 0x3000 0x2300 0)) \<and>
   w_of (xPC (M68K_SaveContext (machine_example 0 0x2300 0))) = 0"
proof -
  have h1: "\<not> PISTORM env_plain" by (simp add: ex_sel)
  have h2: "w_of (xPC (machine_example 0 0x2300 0)) = 0"
    by (simp add: machine_example_def w_of_def)
  have h3: "iteration env_plain (machine_example 0 0x2300 0) =
     Some (M68K_SaveContext (machine_example 0 0x2300 0), True)"
    using h1 h2 by (simp add: iteration_def)
  have h4: "w_of (xPC (machine_example 0x3000 0x2300 0)) \<noteq> 0"
    by (simp add: machine_example_def w_of_def)
  show ?thesis
    using sentinel_exit [of env_plain "machine_example 0 0x2300 0"
        "machine_example 0 0x2300 0" "M68K_SaveContext (machine_example 0 0x2300 0)" True
        "machine_example 0x3000 0x2300 0"
        "log_event (EvEnter 0x4000) (machine_example 0x3000 0x2300 0)"
        "machine_example 0 0x2300 0" "M68K_SaveContext (machine_example 0 0x2300 0)"]
      h1 h2 h3 h4 iteration_example
    by simp
qed

text \<open>
  Claim C8 as it is stated does not hold in a build with \<^verbatim>\<open>PISTORM\<close>: there the pass that
  starts with guest PC zero does not leave the loop and enters the fragment in \<^verbatim>\<open>x12\<close>.
\<close>

theorem sentinel_pistorm_counterexample:
  "w_of (xPC (machine_example 0 0x2300 0)) = 0 \<and>
   iteration env_pistorm (machine_example 0 0x2300 0) =
     Some (log_event (EvEnter 0x4000) (machine_example 0 0x2300 0), False)"
  by (simp add: iteration_def dispatch99_def enter_def ex_sel machine_example_def w_of_def
        ctx_example_def CACRB_IE_def log_event_def)


section \<open>Properties of the lookup\<close>











text \<open>The list through offset 16 and the promotion of a unit in it.\<close>

lemma node_cells_simps [simp]:
  "node_cells [] = []"
  "node_cells (n # ns) = n # (n + 8) # node_cells ns"
  "node_cells (xs @ ys) = node_cells xs @ node_cells ys"
  by (simp_all add: node_cells_def)














section \<open>Properties of the interrupt check\<close>

lemma and7_cases:
  fixes x :: u32
  obtains "x AND 7 = 0" | "x AND 7 = 1" | "x AND 7 = 2" | "x AND 7 = 3"
        | "x AND 7 = 4" | "x AND 7 = 5" | "x AND 7 = 6" | "x AND 7 = 7"
proof -
  define k where "k = unat (x AND 7)"
  have "x AND 7 \<le> 7" by (rule word_and_le1)
  then have k7: "k \<le> 7" by (simp add: word_le_nat_alt k_def)
  have e: "x AND 7 = of_nat k" by (simp add: k_def)
  from k7 consider "k = 0" | "k = 1" | "k = 2" | "k = 3" | "k = 4" | "k = 5" | "k = 6" | "k = 7"
    by arith
  then show ?thesis
  proof cases
    case 1 then show ?thesis using that(1) e by simp
  next
    case 2 then show ?thesis using that(2) e by simp
  next
    case 3 then show ?thesis using that(3) e by simp
  next
    case 4 then show ?thesis using that(4) e by simp
  next
    case 5 then show ?thesis using that(5) e by simp
  next
    case 6 then show ?thesis using that(6) e by simp
  next
    case 7 then show ?thesis using that(7) e by simp
  next
    case 8 then show ?thesis using that(8) e by simp
  qed
qed


lemma unmasked_mask:
  "unmasked sr pint =
     pint AND NOT (if IPM_of sr = 7 then mask 7 else mask (Suc (IPM_of sr)))"
proof (rule and7_cases [of "drop_bit 8 sr"])
  assume a: "drop_bit 8 sr AND 7 = 0"
  show ?thesis by (simp add: unmasked_def IPM_of_def SRB_IPL_def Let_def mask_eq_exp_minus_1 a)
next
  assume a: "drop_bit 8 sr AND 7 = 1"
  show ?thesis by (simp add: unmasked_def IPM_of_def SRB_IPL_def Let_def mask_eq_exp_minus_1 a)
next
  assume a: "drop_bit 8 sr AND 7 = 2"
  show ?thesis by (simp add: unmasked_def IPM_of_def SRB_IPL_def Let_def mask_eq_exp_minus_1 a)
next
  assume a: "drop_bit 8 sr AND 7 = 3"
  show ?thesis by (simp add: unmasked_def IPM_of_def SRB_IPL_def Let_def mask_eq_exp_minus_1 a)
next
  assume a: "drop_bit 8 sr AND 7 = 4"
  show ?thesis by (simp add: unmasked_def IPM_of_def SRB_IPL_def Let_def mask_eq_exp_minus_1 a)
next
  assume a: "drop_bit 8 sr AND 7 = 5"
  show ?thesis by (simp add: unmasked_def IPM_of_def SRB_IPL_def Let_def mask_eq_exp_minus_1 a)
next
  assume a: "drop_bit 8 sr AND 7 = 6"
  show ?thesis by (simp add: unmasked_def IPM_of_def SRB_IPL_def Let_def mask_eq_exp_minus_1 a)
next
  assume a: "drop_bit 8 sr AND 7 = 7"
  show ?thesis by (simp add: unmasked_def IPM_of_def SRB_IPL_def Let_def mask_eq_exp_minus_1 a)
qed

lemma bits32_length [simp]: "length (bits32 x) = 32"
  by (simp add: bits32_def)

lemma bits32_nth: "i < 32 \<Longrightarrow> bits32 x ! i = bit x (31 - i)"
  by (simp add: bits32_def rev_nth)

lemma clz32_bits: "clz32 x = length (takeWhile Not (bits32 x))"
  by (simp add: clz32_def bits32_def)

lemma clz32_le: "clz32 x \<le> 32"
  unfolding clz32_bits
  by (rule order_trans [OF length_takeWhile_le]) simp

lemma clz32_above:
  assumes "i < clz32 x"
  shows "\<not> bit x (31 - i)"
proof -
  have i32: "i < 32" using assms clz32_le [of x] by simp
  have "takeWhile Not (bits32 x) ! i \<in> set (takeWhile Not (bits32 x))"
    using assms by (simp add: clz32_bits)
  then have "\<not> (takeWhile Not (bits32 x) ! i)"
    by (auto dest: set_takeWhileD)
  moreover have "takeWhile Not (bits32 x) ! i = bits32 x ! i"
    using assms by (simp add: clz32_bits takeWhile_nth)
  ultimately show ?thesis using i32 by (simp add: bits32_nth)
qed

lemma clz32_lt:
  assumes "x \<noteq> 0"
  shows "clz32 x < 32"
proof (rule ccontr)
  assume "\<not> clz32 x < 32"
  then have c: "clz32 x = 32" using clz32_le [of x] by simp
  have "\<not> bit x n" for n
  proof (cases "n < 32")
    case True
    then have "31 - n < clz32 x" using c by simp
    from clz32_above [OF this] True show ?thesis by simp
  next
    case False
    then show ?thesis by (auto dest: bit_imp_le_length)
  qed
  then have "x = 0" by (intro bit_word_eqI) simp
  with assms show False by simp
qed

lemma clz32_top:
  assumes "x \<noteq> 0"
  shows "bit x (31 - clz32 x)"
proof -
  have lt: "clz32 x < 32" by (rule clz32_lt [OF assms])
  then have "length (takeWhile Not (bits32 x)) < length (bits32 x)"
    by (simp add: clz32_bits)
  from nth_length_takeWhile [OF this] have "bits32 x ! clz32 x"
    by (simp add: clz32_bits)
  then show ?thesis using lt by (simp add: bits32_nth)
qed

lemma clz32_highest:
  assumes "bit x j"
  shows "j \<le> 31 - clz32 x"
proof (rule ccontr)
  assume "\<not> j \<le> 31 - clz32 x"
  then have g: "31 - clz32 x < j" by simp
  have j32: "j < 32" using assms by (auto dest: bit_imp_le_length)
  then have "31 - j < clz32 x" using g by arith
  from clz32_above [OF this] j32 assms show False by simp
qed

lemma IPM_of_le: "IPM_of sr \<le> 7"
  unfolding IPM_of_def using word_and_le1 [of "drop_bit 8 sr" 7]
  by (simp add: word_le_nat_alt)

lemma unmasked_bit:
  "bit (unmasked sr pint) j \<longleftrightarrow> bit pint j \<and> (IPM_of sr < j \<or> j = 7)"
  using IPM_of_le [of sr]
  unfolding unmasked_mask
  by (auto simp add: bit_simps dest: bit_imp_le_length)

lemma small_bits:
  assumes "(pint :: u32) < 0x100" and "bit pint j"
  shows "j \<le> 7"
proof -
  have "pint < 2 ^ 8" using assms(1) by simp
  then have "pint AND mask 8 = pint" by (rule less_mask_eq)
  then have "bit (pint AND mask 8) j" using assms(2) by simp
  then have "j < 8" by (simp add: bit_simps)
  then show ?thesis by simp
qed

lemma accepted_level_eq:
  assumes "x \<noteq> 0"
  shows "accepted_level x = word_of_nat (31 - clz32 x)"
proof -
  have "clz32 x < 32" by (rule clz32_lt [OF assms])
  then have "(word_of_nat (31 - clz32 x) :: u32) = 31 - word_of_nat (clz32 x)"
    by (simp add: of_nat_diff)
  then show ?thesis by (simp add: accepted_level_def Let_def)
qed

lemma unmasked_levels_head:
  assumes small: "pint < 0x100" and nz: "unmasked sr pint \<noteq> 0"
  shows "\<exists>ls. unmasked_levels sr pint = (31 - clz32 (unmasked sr pint)) # ls"
    and "1 \<le> 31 - clz32 (unmasked sr pint)" and "31 - clz32 (unmasked sr pint) \<le> 7"
proof -
  let ?w = "unmasked sr pint"
  let ?h = "31 - clz32 ?w"
  have P: "bit ?w l \<longleftrightarrow> bit pint l \<and> (IPM_of sr < l \<or> l = 7)" for l
    by (rule unmasked_bit)
  have top: "bit ?w ?h" by (rule clz32_top [OF nz])
  have high: "bit ?w j \<Longrightarrow> j \<le> ?h" for j by (rule clz32_highest)
  have h7: "?h \<le> 7" using top small_bits [OF small, of ?h] by (simp add: P)
  have h1: "1 \<le> ?h" using top by (auto simp add: P)
  have no: "?h < j \<Longrightarrow> \<not> (bit pint j \<and> (IPM_of sr < j \<or> j = 7))" for j
    using high [of j] by (auto simp add: P)
  have yes: "bit pint ?h \<and> (IPM_of sr < ?h \<or> ?h = 7)" using top by (simp add: P)
  from h1 h7 consider "?h = 1" | "?h = 2" | "?h = 3" | "?h = 4" | "?h = 5" | "?h = 6" | "?h = 7"
    by arith
  then show "\<exists>ls. unmasked_levels sr pint = ?h # ls"
  proof cases
    case 1 then show ?thesis
      using yes no [of 2] no [of 3] no [of 4] no [of 5] no [of 6] no [of 7]
      by (simp add: unmasked_levels_def)
  next
    case 2 then show ?thesis
      using yes no [of 3] no [of 4] no [of 5] no [of 6] no [of 7]
      by (simp add: unmasked_levels_def)
  next
    case 3 then show ?thesis
      using yes no [of 4] no [of 5] no [of 6] no [of 7]
      by (simp add: unmasked_levels_def)
  next
    case 4 then show ?thesis
      using yes no [of 5] no [of 6] no [of 7]
      by (simp add: unmasked_levels_def)
  next
    case 5 then show ?thesis
      using yes no [of 6] no [of 7]
      by (simp add: unmasked_levels_def)
  next
    case 6 then show ?thesis
      using yes no [of 7]
      by (simp add: unmasked_levels_def)
  next
    case 7 then show ?thesis
      using yes
      by (simp add: unmasked_levels_def)
  qed
  show "1 \<le> ?h" by (rule h1)
  show "?h \<le> 7" by (rule h7)
qed

lemma unmasked_levels_empty:
  assumes small: "pint < 0x100" and z: "unmasked sr pint = 0"
  shows "unmasked_levels sr pint = []"
proof -
  have n: "\<not> (bit pint l \<and> (IPM_of sr < l \<or> l = 7))" for l
    using unmasked_bit [of sr pint l] z by simp
  show ?thesis
    using n [of 1] n [of 2] n [of 3] n [of 4] n [of 5] n [of 6] n [of 7]
    by (simp add: unmasked_levels_def)
qed

lemma bytes16: "push_bit 8 (ucast (ucast (drop_bit 8 v) :: u8)) OR ucast (ucast v :: u8) = (v :: u16)"
  by (rule bit_word_eqI) (auto simp add: bit_simps)

lemma bytes32:
  "push_bit 24 (ucast (ucast (drop_bit 24 v) :: u8)) OR
   push_bit 16 (ucast (ucast (drop_bit 16 v) :: u8)) OR
   push_bit 8 (ucast (ucast (drop_bit 8 v) :: u8)) OR ucast (ucast v :: u8) = (v :: u32)"
proof (rule bit_word_eqI)
  fix n assume "n < LENGTH(32)"
  then have n: "n < 32" by simp
  consider "n < 8" | "8 \<le> n" "n < 16" | "16 \<le> n" "n < 24" | "24 \<le> n"
    by arith
  then show "bit (push_bit 24 (ucast (ucast (drop_bit 24 v) :: u8)) OR
   push_bit 16 (ucast (ucast (drop_bit 16 v) :: u8)) OR
   push_bit 8 (ucast (ucast (drop_bit 8 v) :: u8)) OR (ucast (ucast v :: u8) :: u32)) n = bit v n"
    using n by cases (auto simp add: bit_simps)
qed

lemma frame_readback:
  fixes sp :: u64
  defines "gm' \<equiv> \<lambda>gm v1 v2 v3. store16 (store32 (store16 gm (sp - 2) v1) (sp - 2 - 4) v2) (sp - 2 - 4 - 2) v3"
  shows "read16 (gm' gm v1 v2 v3) (sp - 2) = v1"
    and "read32 (gm' gm v1 v2 v3) (sp - 6) = v2"
    and "read16 (gm' gm v1 v2 v3) (sp - 8) = v3"
  unfolding gm'_def
  by (simp_all add: store16_def store32_def read16_def read32_def bytes16 bytes32)


lemma switch_stack_sel:
  "xA (switch_stack w2 m) 7 =
     (if bit w2 13 then xA m 7 else ldr_w (if bit w2 12 then MSP (ctx m) else ISP (ctx m)))"
  "USP (ctx (switch_stack w2 m)) = (if bit w2 13 then USP (ctx m) else w_of (xA m 7))"
  "PINT (ctx (switch_stack w2 m)) = PINT (ctx m)"
  "VBR (ctx (switch_stack w2 m)) = VBR (ctx m)"
  "gmem (switch_stack w2 m) = gmem m"
  "xPC (switch_stack w2 m) = xPC m"
  by (simp_all add: switch_stack_def SRB_S_def SRB_M_def Let_def)

lemma push_frame_sel:
  "xA (push_frame w2 l m) 7 = xA m 7 - 8"
  "gmem (push_frame w2 l m) =
     store16 (store32 (store16 (gmem m) (xA m 7 - 2) (ucast (push_bit 2 l + (0x60 :: u32))))
                (xA m 7 - 2 - 4) (w_of (xPC m)))
       (xA m 7 - 2 - 4 - 2) (ucast w2)"
  "TPIDR_EL0 (push_frame w2 l m) = ldr_w ((bfi_ipm w2 l AND NOT 0xc000) OR 0x2000)"
  "xPC (push_frame w2 l m) =
     ldr_w (read32 (gmem (push_frame w2 l m))
              (ldr_w (VBR (ctx m)) + ldr_w (push_bit 2 l + 0x60)))"
  "ctx (push_frame w2 l m) = ctx m"
  by (simp_all add: push_frame_def Let_def)

lemma sr_update:
  fixes x l :: u32
  shows "((x AND NOT (push_bit 8 (mask 3))) OR push_bit 8 (l AND mask 3))
            AND NOT (push_bit 14 (mask 2)) OR push_bit 13 1 =
         (x AND NOT (push_bit 14 (mask 2) OR push_bit 8 (mask 3))) OR push_bit 13 1
            OR push_bit 8 (l AND mask 3)"
  by (rule bit_word_eqI) (auto simp add: bit_simps)

lemma sr_update_level:
  fixes w2 :: u32
  assumes "h \<le> 7"
  shows "(bfi_ipm w2 (word_of_nat h) AND NOT 0xc000) OR 0x2000 =
           (w2 AND NOT 0xc700) OR 0x2000 OR push_bit 8 (word_of_nat h)"
proof -
  from assms consider "h = 0" | "h = 1" | "h = 2" | "h = 3" | "h = 4" | "h = 5" | "h = 6"
    | "h = 7" by arith
  then have "(word_of_nat h :: u32) < 2 ^ 3"
    by cases simp_all
  then have l: "(word_of_nat h :: u32) AND mask 3 = word_of_nat h" by (rule less_mask_eq)
  have n: "(7 :: u32) = mask 3" "(0xc000 :: u32) = push_bit 14 (mask 2)"
    "(0x2000 :: u32) = push_bit 13 1"
    "(0xc700 :: u32) = push_bit 14 (mask 2) OR push_bit 8 (mask 3)"
    by (simp_all add: mask_eq_exp_minus_1)
  show ?thesis
    unfolding bfi_ipm_def SRB_IPL_def n
    using sr_update [of w2 "word_of_nat h"] by (simp only: l)
qed

lemma level_words:
  assumes "1 \<le> h" and "h \<le> 7"
  shows "(ucast (push_bit 2 (word_of_nat h :: u32) + 0x60) :: u16) = word_of_nat ((24 + h) * 4)"
    and "ldr_w (push_bit 2 (word_of_nat h :: u32) + 0x60) = word_of_nat ((24 + h) * 4)"
    and "push_bit (unat (word_of_nat h :: u32) mod 32) (1 :: u32) = push_bit h 1"
proof -
  from assms consider "h = 1" | "h = 2" | "h = 3" | "h = 4" | "h = 5" | "h = 6" | "h = 7"
    by arith
  then have "(ucast (push_bit 2 (word_of_nat h :: u32) + 0x60) :: u16) = word_of_nat ((24 + h) * 4)
    \<and> ldr_w (push_bit 2 (word_of_nat h :: u32) + 0x60) = word_of_nat ((24 + h) * 4)
    \<and> push_bit (unat (word_of_nat h :: u32) mod 32) (1 :: u32) = push_bit h 1"
    by cases (simp_all add: ldr_w_def)
  then show "(ucast (push_bit 2 (word_of_nat h :: u32) + 0x60) :: u16) = word_of_nat ((24 + h) * 4)"
    and "ldr_w (push_bit 2 (word_of_nat h :: u32) + 0x60) = word_of_nat ((24 + h) * 4)"
    and "push_bit (unat (word_of_nat h :: u32) mod 32) (1 :: u32) = push_bit h 1"
    by simp_all
qed

lemma log_event_sel [simp]:
  "xA (log_event ev m) = xA m" "gmem (log_event ev m) = gmem m" "xPC (log_event ev m) = xPC m"
  "ctx (log_event ev m) = ctx m" "TPIDR_EL0 (log_event ev m) = TPIDR_EL0 m"
  by (simp_all add: log_event_def)

lemma unmasked_zero [simp]: "unmasked sr 0 = 0"
  by (simp add: unmasked_def Let_def)

lemma check_interrupt_none:
  "unmasked (w_of (TPIDR_EL0 m)) (PINT (ctx m)) = 0 \<Longrightarrow> check_interrupt m = m"
  by (simp add: check_interrupt_def Let_def)

lemma check_interrupt_taken:
  assumes nz: "unmasked (w_of (TPIDR_EL0 m)) (PINT (ctx m)) \<noteq> 0"
    and h: "h = 31 - clz32 (unmasked (w_of (TPIDR_EL0 m)) (PINT (ctx m)))"
    and h1: "1 \<le> h" and h7: "h \<le> 7"
  shows "interrupt_taken h m (check_interrupt m)"
proof -
  let ?sr = "w_of (TPIDR_EL0 m)"
  let ?m1 = "switch_stack ?sr m"
  let ?m2 = "log_event (EvInterrupt (word_of_nat h))
               (?m1\<lparr>ctx := (ctx ?m1)\<lparr>PINT := PINT (ctx m) AND NOT (push_bit h 1)\<rparr>\<rparr>)"
  have al: "accepted_level (unmasked ?sr (PINT (ctx m))) = word_of_nat h"
    unfolding h by (rule accepted_level_eq [OF nz])
  have p: "(2 :: u32) ^ (unat (word_of_nat h :: u32) mod 32) = 2 ^ h"
    using level_words(3) [OF h1 h7] by simp
  have ci: "check_interrupt m = push_frame ?sr (word_of_nat h) ?m2"
    using nz by (simp add: check_interrupt_def Let_def al p)
  let ?m' = "push_frame ?sr (word_of_nat h) ?m2"
  let ?sp = "frame_base m"
  have sp: "xA ?m2 7 = ?sp"
    by (simp add: switch_stack_sel frame_base_def Let_def)
  have m2: "gmem ?m2 = gmem m" "xPC ?m2 = xPC m" "VBR (ctx ?m2) = VBR (ctx m)"
    "USP (ctx ?m2) = (if bit ?sr 13 then USP (ctx m) else w_of (xA m 7))"
    "PINT (ctx ?m2) = PINT (ctx m) AND NOT (push_bit h 1)"
    by (simp_all add: switch_stack_sel)
  have g: "gmem ?m' =
     store16 (store32 (store16 (gmem m) (?sp - 2) (word_of_nat ((24 + h) * 4)))
                (?sp - 2 - 4) (w_of (xPC m)))
       (?sp - 2 - 4 - 2) (ucast ?sr)"
    by (simp only: push_frame_sel sp m2 level_words(1) [OF h1 h7])
  have 1: "USP (ctx ?m') = (if bit ?sr 13 then USP (ctx m) else w_of (xA m 7))"
    by (simp only: push_frame_sel m2)
  have 2: "xA ?m' 7 = ?sp - 8"
    by (simp only: push_frame_sel sp)
  have 3: "read16 (gmem ?m') (?sp - 2) = word_of_nat ((24 + h) * 4)"
    unfolding g by (rule frame_readback(1))
  have 4: "read32 (gmem ?m') (?sp - 6) = w_of (xPC m)"
    unfolding g by (rule frame_readback(2))
  have 5: "read16 (gmem ?m') (?sp - 8) = ucast ?sr"
    unfolding g by (rule frame_readback(3))
  have 6: "TPIDR_EL0 ?m' = ldr_w ((?sr AND NOT 0xc700) OR 0x2000 OR push_bit 8 (word_of_nat h))"
    by (simp only: push_frame_sel sr_update_level [OF h7])
  have 7: "xPC ?m' =
      ldr_w (read32 (gmem ?m') (ldr_w (VBR (ctx m)) + word_of_nat ((24 + h) * 4)))"
    by (simp only: push_frame_sel(4) m2 level_words(2) [OF h1 h7])
  have 8: "PINT (ctx ?m') = PINT (ctx m) AND NOT (push_bit h 1)"
    by (simp only: push_frame_sel m2)
  show ?thesis
    unfolding ci interrupt_taken_def Let_def
    using 1 2 3 4 5 6 7 8 by blast
qed

text \<open>
  Claim C2 as it is stated does not hold at the top of every iteration. With level 5
  pending and unmasked (IPM is 3): in the build without \<^verbatim>\<open>PISTORM\<close> an iteration that starts
  with guest PC zero leaves the loop before \<^verbatim>\<open>PINT\<close> is read, and all it does is save the
  context; in the build with \<^verbatim>\<open>PISTORM\<close> the dispatcher does not read \<^verbatim>\<open>PINT\<close> at all, and with
  no level on the bus it enters the fragment without any change of the guest state.
\<close>

theorem interrupt_counterexample:
  "unmasked_levels 0x2300 0x20 = [5] \<and>
   iteration env_plain (machine_example 0 0x2300 0x20) =
     Some (M68K_SaveContext (machine_example 0 0x2300 0x20), True) \<and>
   iteration env_pistorm (machine_example 0x3000 0x2300 0x20) =
     Some (log_event (EvEnter 0x4000) (machine_example 0x3000 0x2300 0x20), False)"
  by (simp add: iteration_def dispatch99_def enter_def ex_sel machine_example_def w_of_def
        ctx_example_def CACRB_IE_def log_event_def unmasked_levels_def IPM_of_def)

text \<open>
  Claim C2, amended. In the build without \<^verbatim>\<open>PISTORM\<close>, at the top of every dispatcher
  iteration that starts with a guest PC other than zero, with \<^verbatim>\<open>PINT\<close> holding the levels 1
  to 7 only: the rest of the iteration runs on the machine that the interrupt check
  leaves. If a pending level is unmasked (above IPM, or level 7), the highest such level
  \<open>l\<close> is accepted: A7 is saved to USP when user mode is left and the stack is then ISP or
  MSP by the M bit; the frame word \<open>(24 + l) * 4\<close>, the old PC and the old SR are pushed; the
  trace bits are cleared, S is set and IPM becomes \<open>l\<close>; the new guest PC is read from
  \<open>VBR + (24 + l) * 4\<close>; the level is cleared in \<^verbatim>\<open>PINT\<close>. If no pending level is unmasked, the
  check changes nothing.
\<close>

theorem interrupt_at_loop_top:
  assumes np: "\<not> PISTORM env" and pc: "w_of (xPC m) \<noteq> 0" and small: "PINT (ctx m) < 0x100"
  shows "iteration env m = dispatch99 env (check_interrupt m) \<and>
         (case unmasked_levels (w_of (TPIDR_EL0 m)) (PINT (ctx m)) of
            [] \<Rightarrow> check_interrupt m = m
          | l # ls \<Rightarrow> interrupt_taken l m (check_interrupt m))"
proof -
  let ?w = "unmasked (w_of (TPIDR_EL0 m)) (PINT (ctx m))"
  have it: "iteration env m = dispatch99 env (check_interrupt m)"
  proof (cases "PINT (ctx m) = 0")
    case True
    then have "check_interrupt m = m" by (simp add: check_interrupt_none)
    then show ?thesis using np pc True by (simp add: iteration_def)
  next
    case False
    then show ?thesis using np pc by (simp add: iteration_def)
  qed
  have "case unmasked_levels (w_of (TPIDR_EL0 m)) (PINT (ctx m)) of
            [] \<Rightarrow> check_interrupt m = m
          | l # ls \<Rightarrow> interrupt_taken l m (check_interrupt m)"
  proof (cases "?w = 0")
    case True
    then show ?thesis
      by (simp add: unmasked_levels_empty [OF small True] check_interrupt_none)
  next
    case False
    from unmasked_levels_head [OF small False]
    obtain ls where ul: "unmasked_levels (w_of (TPIDR_EL0 m)) (PINT (ctx m)) = (31 - clz32 ?w) # ls"
      and h1: "1 \<le> 31 - clz32 ?w" and h7: "31 - clz32 ?w \<le> 7"
      by blast
    show ?thesis
      unfolding ul using check_interrupt_taken [OF False refl h1 h7] by simp
  qed
  with it show ?thesis by simp
qed

lemma machine_example_sel:
  "xPC (machine_example pc sr pint) = pc"
  "TPIDR_EL0 (machine_example pc sr pint) = sr"
  "PINT (ctx (machine_example pc sr pint)) = pint"
  by (simp_all add: machine_example_def ctx_example_def)

theorem interrupt_at_loop_top_witness:
  "\<not> PISTORM env_plain \<and> w_of (xPC (machine_example 0x3000 0x2300 0x24)) \<noteq> 0 \<and>
   PINT (ctx (machine_example 0x3000 0x2300 0x24)) < 0x100 \<and>
   unmasked_levels (w_of (TPIDR_EL0 (machine_example 0x3000 0x2300 0x24)))
     (PINT (ctx (machine_example 0x3000 0x2300 0x24))) = [5] \<and>
   iteration env_plain (machine_example 0x3000 0x2300 0x24) =
     dispatch99 env_plain (check_interrupt (machine_example 0x3000 0x2300 0x24)) \<and>
   interrupt_taken 5 (machine_example 0x3000 0x2300 0x24)
     (check_interrupt (machine_example 0x3000 0x2300 0x24))"
proof -
  have h1: "\<not> PISTORM env_plain" by (simp add: env_plain_def)
  have h2: "w_of (xPC (machine_example 0x3000 0x2300 0x24)) \<noteq> 0"
    by (simp add: machine_example_sel w_of_def)
  have h3: "PINT (ctx (machine_example 0x3000 0x2300 0x24)) < 0x100"
    by (simp add: machine_example_sel)
  have ul: "unmasked_levels (w_of (TPIDR_EL0 (machine_example 0x3000 0x2300 0x24)))
     (PINT (ctx (machine_example 0x3000 0x2300 0x24))) = [5]"
    by (simp add: machine_example_sel w_of_def unmasked_levels_def IPM_of_def)
  show ?thesis
    using interrupt_at_loop_top [OF h1 h2 h3] h1 h2 h3 ul by simp
qed

section \<open>Running the emitted DBcc code\<close>

lemma DBF_loop:
  "map_option (\<lambda>s. (R s 4, R s 10))
     (run (stream (EMIT_line5 env_example (guest_code 0x51c8) emitter0)) 0
        (state_example 0x51c8 0x00050003 0)) = Some (0x00050002, 0x1000 + 0x51c8)"
  unfolding DBF_stream_example state_example_def
  apply (subst run_next, simp, simp add: sem_defs, simp)+
  apply (subst run_stop, simp, simp add: sem_defs)
  apply (simp add: sem_defs)
  done

lemma DBF_exit:
  "map_option (\<lambda>s. (R s 4, R s 10))
     (run (stream (EMIT_line5 env_example (guest_code 0x51c8) emitter0)) 0
        (state_example 0x51c8 0x00050000 0)) = Some (0x0005ffff, 0x1002)"
  unfolding DBF_stream_example state_example_def
  apply (subst run_next, simp, simp add: sem_defs, simp)+
  apply (subst run_stop, simp, simp add: sem_defs)
  apply (simp add: sem_defs)
  done

lemma DBEQ_loop:
  "map_option (\<lambda>s. (R s 4, R s 10))
     (run (stream (EMIT_line5 env_example (guest_code 0x57c8) emitter0)) 0
        (state_example 0x57c8 0x00050003 0)) = Some (0x00050002, 0x0ffe)"
  unfolding DBEQ_stream_example state_example_def
  apply (subst run_next, simp, simp add: sem_defs, simp)+
  apply (subst run_stop, simp, simp add: sem_defs)
  apply (simp add: sem_defs)
  done

lemma DBEQ_exit:
  "map_option (\<lambda>s. (R s 4, R s 10))
     (run (stream (EMIT_line5 env_example (guest_code 0x57c8) emitter0)) 0
        (state_example 0x57c8 0x00050000 0)) = Some (0x0005ffff, 0x1004)"
  unfolding DBEQ_stream_example state_example_def
  apply (subst run_next, simp, simp add: sem_defs, simp)+
  apply (subst run_stop, simp, simp add: sem_defs)
  apply (simp add: sem_defs)
  done

lemma DBEQ_taken:
  "map_option (\<lambda>s. (R s 4, R s 10))
     (run (stream (EMIT_line5 env_example (guest_code 0x57c8) emitter0)) 0
        (state_example 0x57c8 0x00050003 4)) = Some (0x00050003, 0x1004)"
  unfolding DBEQ_stream_example state_example_def
  apply (subst run_next, simp, simp add: sem_defs, simp)+
  apply (subst run_stop, simp, simp add: sem_defs)
  apply (simp add: sem_defs)
  done

text \<open>
  Claim C1. The claim describes DBcc with any condition other than T, DBF in particular:
  the low half of the counter is decremented, the exit leaves guest PC behind the
  displacement word, and the loop adds the displacement to guest PC. For DBF the emitted
  code does decrement the low half only, but guest PC is wrong on both ways out: the
  emitter skips, together with the condition test, the step that moves guest PC onto the
  displacement word. With \<^verbatim>\<open>DBF D0\<close> (\<open>0x51c8\<close>) at guest address \<open>0x1000\<close> and displacement
  \<open>-4\<close>: from \<open>D0 = 0x00050003\<close> the code leaves \<open>D0 = 0x00050002\<close> and guest PC
  \<open>0x1000 + 0x51c8\<close> (the opcode word taken as displacement) where the loop target is
  \<open>0x0ffe\<close>; from \<open>D0 = 0x00050000\<close> it leaves \<open>D0 = 0x0005ffff\<close> and guest PC \<open>0x1002\<close>, on the
  displacement word, where the exit is \<open>0x1004\<close>. The code emitted for a tested condition
  (\<^verbatim>\<open>DBEQ D0\<close>, \<open>0x57c8\<close>, with Z clear) reaches \<open>0x0ffe\<close> and \<open>0x1004\<close> from the same two
  states.
\<close>

theorem DBF_emitted_code_wrong_PC:
  "map_option (\<lambda>s. (R s 4, R s 10))
     (run (stream (EMIT_line5 env_example (guest_code 0x51c8) emitter0)) 0
        (state_example 0x51c8 0x00050003 0)) = Some (0x00050002, 0x1000 + 0x51c8) \<and>
   map_option (\<lambda>s. (R s 4, R s 10))
     (run (stream (EMIT_line5 env_example (guest_code 0x51c8) emitter0)) 0
        (state_example 0x51c8 0x00050000 0)) = Some (0x0005ffff, 0x1002) \<and>
   map_option (\<lambda>s. (R s 4, R s 10))
     (run (stream (EMIT_line5 env_example (guest_code 0x57c8) emitter0)) 0
        (state_example 0x57c8 0x00050003 0)) = Some (0x00050002, 0x0ffe) \<and>
   map_option (\<lambda>s. (R s 4, R s 10))
     (run (stream (EMIT_line5 env_example (guest_code 0x57c8) emitter0)) 0
        (state_example 0x57c8 0x00050000 0)) = Some (0x0005ffff, 0x1004)"
  using DBF_loop DBF_exit DBEQ_loop DBEQ_exit by simp

end
